theory Spec2Isabelle
  imports Main "HOL-Library.Word"
begin

section \<open>JavaScript values\<close>

text \<open>
  A JavaScript string is a sequence of UTF-16 code units; \<open>length\<close> counts code units,
  \<open>for (const c of s)\<close> walks code points (a surrogate pair is one step), and the
  relational operators on strings compare code unit by code unit.
\<close>

type_synonym jsstring = "16 word list"

definition js :: "string \<Rightarrow> jsstring" where
  "js s = map (\<lambda>c. of_nat (of_char c)) s"

fun js_le :: "jsstring \<Rightarrow> jsstring \<Rightarrow> bool" where
  "js_le [] ys = True"
| "js_le (x # xs) [] = False"
| "js_le (x # xs) (y # ys) = (x < y \<or> (x = y \<and> js_le xs ys))"

definition is_high_surrogate :: "16 word \<Rightarrow> bool" where
  "is_high_surrogate u = (0xD800 \<le> u \<and> u \<le> 0xDBFF)"

definition is_low_surrogate :: "16 word \<Rightarrow> bool" where
  "is_low_surrogate u = (0xDC00 \<le> u \<and> u \<le> 0xDFFF)"

text \<open>The string iterator behind \<open>for ... of\<close>: one element per code point.\<close>

fun code_points :: "jsstring \<Rightarrow> jsstring list" where
  "code_points [] = []"
| "code_points [u] = [[u]]"
| "code_points (u # v # us) =
     (if is_high_surrogate u \<and> is_low_surrogate v then [u, v] # code_points us
      else [u] # code_points (v # us))"

text \<open>
  The values a parsed JSON body can hold, plus \<open>undefined\<close>, which reading an absent
  property gives. Numbers are taken as integers. An object is the list of its own
  properties in insertion order.
\<close>

datatype jsval =
    JUndefined
  | JNull
  | JBool bool
  | JNumber int
  | JString jsstring
  | JObject "(jsstring \<times> jsval) list"
  | JArray "jsval list"

datatype jstype = TUndefined | TObject | TBoolean | TNumber | TString

fun typeof :: "jsval \<Rightarrow> jstype" where
  "typeof JUndefined = TUndefined"
| "typeof JNull = TObject"
| "typeof (JBool b) = TBoolean"
| "typeof (JNumber n) = TNumber"
| "typeof (JString s) = TString"
| "typeof (JObject kvs) = TObject"
| "typeof (JArray xs) = TObject"

text \<open>\<open>obj[key]\<close> on the property list of an object.\<close>

definition get_prop :: "(jsstring \<times> jsval) list \<Rightarrow> jsstring \<Rightarrow> jsval" where
  "get_prop kvs key = (case map_of kvs key of Some v \<Rightarrow> v | None \<Rightarrow> JUndefined)"

text \<open>
  \<open>value.key\<close> for the property names the validators read; none of them is an array
  index or \<open>length\<close>, so on an array and on a primitive the result is \<open>undefined\<close>.
\<close>

fun member_of :: "jsval \<Rightarrow> jsstring \<Rightarrow> jsval" where
  "member_of (JObject kvs) key = get_prop kvs key"
| "member_of v key = JUndefined"

text \<open>\<open>Object.keys(value).length\<close>.\<close>

fun num_keys :: "jsval \<Rightarrow> nat" where
  "num_keys (JObject kvs) = length kvs"
| "num_keys (JArray xs) = length xs"
| "num_keys (JString s) = length s"
| "num_keys v = 0"

section \<open>Property validators (constants.js)\<close>

definition VALIDATE_STRING :: "jsval \<Rightarrow> bool" where
  "VALIDATE_STRING v = (case v of JString s \<Rightarrow> length s > 0 | _ \<Rightarrow> False)"

definition VALIDATE_STRING_OR_NULL :: "jsval \<Rightarrow> bool" where
  "VALIDATE_STRING_OR_NULL v = (VALIDATE_STRING v \<or> v = JNull)"

definition VALIDATE_EMBEDDED_OBJECT :: "jsval \<Rightarrow> bool" where
  "VALIDATE_EMBEDDED_OBJECT v = (typeof v = TObject \<and> v \<noteq> JNull)"

text \<open>The test applied to each \<open>c\<close> of the password, \<open>c\<close> being a one-code-point string.\<close>

definition password_char_ok :: "jsstring \<Rightarrow> bool" where
  "password_char_ok c =
     ((js_le (js ''A'') c \<and> js_le c (js ''Z''))
      \<or> (js_le (js ''a'') c \<and> js_le c (js ''z''))
      \<or> (js_le (js ''0'') c \<and> js_le c (js ''9'')))"

fun password_loop :: "jsstring list \<Rightarrow> bool" where
  "password_loop [] = True"
| "password_loop (c # cs) = (if password_char_ok c then password_loop cs else False)"

definition VALIDATE_PASSWORD :: "jsval \<Rightarrow> bool" where
  "VALIDATE_PASSWORD v =
     (case v of
        JString s \<Rightarrow>
          if length s < 8 \<or> length s > 16 then False
          else password_loop (code_points s)
      | _ \<Rightarrow> False)"

definition VALIDATE_SECRET_QUESTIONS :: "jsval \<Rightarrow> bool" where
  "VALIDATE_SECRET_QUESTIONS v =
     (if \<not> VALIDATE_EMBEDDED_OBJECT v then False
      else if num_keys v \<noteq> 4 then False
      else if \<not> VALIDATE_STRING (member_of v (js ''question_1'')) then False
      else if \<not> VALIDATE_STRING (member_of v (js ''question_2'')) then False
      else if \<not> VALIDATE_STRING (member_of v (js ''answer_1'')) then False
      else if \<not> VALIDATE_STRING (member_of v (js ''answer_2'')) then False
      else if member_of v (js ''question_1'') = member_of v (js ''question_2'') then False
      else if member_of v (js ''answer_1'') = member_of v (js ''answer_2'') then False
      else True)"

section \<open>Entity schema (entity-type.js)\<close>

record property =
  prop_name :: jsstring
  prop_validator :: "jsval \<Rightarrow> bool"
  prop_required :: bool

definition new_Property :: "string \<Rightarrow> (jsval \<Rightarrow> bool) \<Rightarrow> bool \<Rightarrow> property" where
  "new_Property n v r = \<lparr>prop_name = js n, prop_validator = v, prop_required = r\<rparr>"

text \<open>
  The first loop of \<open>validateProperties\<close>: \<open>None\<close> is its \<open>return false\<close>, \<open>Some n\<close>
  the value of \<open>numProps\<close> when the loop ends.
\<close>

fun check_expected ::
  "(jsstring \<times> jsval) list \<Rightarrow> property list \<Rightarrow> nat \<Rightarrow> nat option" where
  "check_expected entityData [] numProps = Some numProps"
| "check_expected entityData (prop # props) numProps =
     (let entityDataKeys = map fst entityData; key = prop_name prop in
      if prop_required prop \<and> key \<notin> set entityDataKeys then None
      else if key \<in> set entityDataKeys then
        (if \<not> prop_validator prop (get_prop entityData key) then None
         else check_expected entityData props (numProps + 1))
      else check_expected entityData props numProps)"

text \<open>The second loop: every key of the data names an expected property.\<close>

fun check_extra :: "property list \<Rightarrow> jsstring list \<Rightarrow> bool" where
  "check_extra expectedProperties [] = True"
| "check_extra expectedProperties (key # keys) =
     (if length (filter (\<lambda>prop. prop_name prop = key) expectedProperties) = 0 then False
      else check_extra expectedProperties keys)"

definition validateProperties :: "(jsstring \<times> jsval) list \<Rightarrow> property list \<Rightarrow> bool" where
  "validateProperties entityData expectedProperties =
     (case check_expected entityData expectedProperties 0 of
        None \<Rightarrow> False
      | Some numProps \<Rightarrow>
          if numProps < 1 then False
          else check_extra expectedProperties (map fst entityData))"

section \<open>Datastore (datastore.js and the store it wraps)\<close>

text \<open>
  Entities are kept per kind, keyed by their numeric id; an observation is keyed by its
  ancestor project's id and its own id, a credential by its ancestor teacher's id and its
  own id. Ids arrive in requests as decimal strings; they are taken here as the numbers
  \<open>parseInt\<close> gives, a request id being in canonical form. Only the fields the
  functions below read are kept. Quantities and counters are whole numbers.
\<close>

record ObservationDataNumber =
  quantity :: int
  description :: jsstring

record ProjectDataNumber =
  dn_name :: jsstring
  number :: int
  must_be_unique :: bool

record project =
  teacher_id :: jsstring
  data_number :: ProjectDataNumber
  description_image_url :: jsstring

record observation =
  obs_data_number :: ObservationDataNumber
  data_image_url :: jsstring

record secret_questions =
  question_1 :: jsstring
  question_2 :: jsstring
  answer_1 :: jsstring
  answer_2 :: jsstring

record reset_code =
  code :: jsstring
  expires :: jsstring

record credential_data =
  password :: jsstring
  secret_questions :: secret_questions
  reset_code :: reset_code

datatype key =
    TeacherKey nat
  | ProjectKey nat
  | ObservationKey nat nat
  | CredentialKey nat nat

record datastore =
  teachers :: "(nat \<times> (jsstring \<times> jsval) list) list"
  projects :: "(nat \<times> project) list"
  observations :: "((nat \<times> nat) \<times> observation) list"
  credentials :: "((nat \<times> nat) \<times> credential_data) list"

definition table_put :: "'k \<Rightarrow> 'v \<Rightarrow> ('k \<times> 'v) list \<Rightarrow> ('k \<times> 'v) list" where
  "table_put k v t = (k, v) # filter (\<lambda>kv. fst kv \<noteq> k) t"

definition table_del :: "('k \<Rightarrow> bool) \<Rightarrow> ('k \<times> 'v) list \<Rightarrow> ('k \<times> 'v) list" where
  "table_del P t = filter (\<lambda>kv. \<not> P (fst kv)) t"

text \<open>The store allocates, for an incomplete key, an id no entity of the table has.\<close>

definition fresh_id :: "nat list \<Rightarrow> nat" where
  "fresh_id ids = Suc (fold max ids 0)"

text \<open>
  What a transaction has queued. A save with an incomplete key gets its id when the
  transaction commits.
\<close>

datatype mutation =
    SaveProject nat project
  | SaveObservation nat nat observation
  | InsertObservation nat observation
  | InsertTeacher "(jsstring \<times> jsval) list"
  | SaveCredential nat nat credential_data
  | InsertCredential nat credential_data
  | DeleteKeys "key list"

fun apply_mutation :: "mutation \<Rightarrow> datastore \<Rightarrow> datastore" where
  "apply_mutation (SaveProject pid p) db = db\<lparr>projects := table_put pid p (projects db)\<rparr>"
| "apply_mutation (SaveObservation pid oid ob) db =
     db\<lparr>observations := table_put (pid, oid) ob (observations db)\<rparr>"
| "apply_mutation (InsertObservation pid ob) db =
     db\<lparr>observations :=
          table_put (pid, fresh_id (map (snd \<circ> fst) (observations db))) ob (observations db)\<rparr>"
| "apply_mutation (InsertTeacher t) db =
     db\<lparr>teachers := table_put (fresh_id (map fst (teachers db))) t (teachers db)\<rparr>"
| "apply_mutation (SaveCredential tid cid c) db =
     db\<lparr>credentials := table_put (tid, cid) c (credentials db)\<rparr>"
| "apply_mutation (InsertCredential tid c) db =
     db\<lparr>credentials :=
          table_put (tid, fresh_id (map (snd \<circ> fst) (credentials db))) c (credentials db)\<rparr>"
| "apply_mutation (DeleteKeys ks) db =
     db\<lparr>teachers := table_del (\<lambda>i. TeacherKey i \<in> set ks) (teachers db),
        projects := table_del (\<lambda>i. ProjectKey i \<in> set ks) (projects db),
        observations := table_del (\<lambda>(p, i). ObservationKey p i \<in> set ks) (observations db),
        credentials := table_del (\<lambda>(t, i). CredentialKey t i \<in> set ks) (credentials db)\<rparr>"

text \<open>
  A transaction reads the store as it was when the transaction began and queues its
  writes; \<open>reads\<close> records the lookups and queries it ran.
\<close>

datatype query =
    ObservationsOfProject nat
  | ProjectsOfTeacher jsstring
  | CredentialsOfTeacher nat
  | ListPage "jsstring option" "nat option" "jsstring option"

datatype read_event = Got key | Queried query

record transaction =
  snapshot :: datastore
  mutations :: "mutation list"
  reads :: "read_event list"

definition begin_transaction :: "datastore \<Rightarrow> transaction" where
  "begin_transaction db = \<lparr>snapshot = db, mutations = [], reads = []\<rparr>"

definition queue :: "mutation \<Rightarrow> transaction \<Rightarrow> transaction" where
  "queue m tx = tx\<lparr>mutations := mutations tx @ [m]\<rparr>"

definition commit :: "transaction \<Rightarrow> datastore" where
  "commit tx = fold apply_mutation (mutations tx) (snapshot tx)"

text \<open>
  The calls to the store and to the image bucket that can throw, as the environment
  decides: which lookups, which queries (with the error code thrown), which saves and
  deletes, the commit, and which bucket files fail to delete.
\<close>

record faults =
  get_throws :: "key \<Rightarrow> bool"
  runQuery_throws :: "query \<Rightarrow> nat option"
  mutation_throws :: "mutation \<Rightarrow> bool"
  commit_throws :: bool
  file_delete_throws :: "jsstring \<Rightarrow> bool"

definition no_faults :: faults where
  "no_faults = \<lparr>get_throws = (\<lambda>k. False), runQuery_throws = (\<lambda>q. None),
     mutation_throws = (\<lambda>m. False), commit_throws = False, file_delete_throws = (\<lambda>f. False)\<rparr>"

text \<open>
  \<open>transaction.get\<close> per kind: \<open>Inl\<close> when the call throws, otherwise the entity of
  the snapshot (\<open>None\<close> for \<open>undefined\<close>) and the transaction with the lookup recorded.
\<close>

definition get_project ::
  "faults \<Rightarrow> transaction \<Rightarrow> nat \<Rightarrow> unit + project option \<times> transaction" where
  "get_project flt tx pid =
     (if get_throws flt (ProjectKey pid) then Inl ()
      else Inr (map_of (projects (snapshot tx)) pid,
                tx\<lparr>reads := reads tx @ [Got (ProjectKey pid)]\<rparr>))"

definition get_observation ::
  "faults \<Rightarrow> transaction \<Rightarrow> nat \<Rightarrow> nat \<Rightarrow> unit + observation option \<times> transaction" where
  "get_observation flt tx pid oid =
     (if get_throws flt (ObservationKey pid oid) then Inl ()
      else Inr (map_of (observations (snapshot tx)) (pid, oid),
                tx\<lparr>reads := reads tx @ [Got (ObservationKey pid oid)]\<rparr>))"

definition get_teacher ::
  "faults \<Rightarrow> transaction \<Rightarrow> nat
     \<Rightarrow> unit + (jsstring \<times> jsval) list option \<times> transaction" where
  "get_teacher flt tx tid =
     (if get_throws flt (TeacherKey tid) then Inl ()
      else Inr (map_of (teachers (snapshot tx)) tid,
                tx\<lparr>reads := reads tx @ [Got (TeacherKey tid)]\<rparr>))"

text \<open>\<open>getAncestorData\<close> for a project key: the entity, or \<open>null\<close> when absent or on a throw.\<close>

definition getAncestorData ::
  "faults \<Rightarrow> transaction \<Rightarrow> nat \<Rightarrow> project option \<times> transaction" where
  "getAncestorData flt tx pid =
     (case get_project flt tx pid of
        Inl u \<Rightarrow> (None, tx)
      | Inr (entity, tx1) \<Rightarrow> (entity, tx1))"

definition teacherExists :: "faults \<Rightarrow> transaction \<Rightarrow> nat \<Rightarrow> bool \<times> transaction" where
  "teacherExists flt tx tid =
     (case get_teacher flt tx tid of
        Inl u \<Rightarrow> (False, tx)
      | Inr (entity, tx1) \<Rightarrow> (entity \<noteq> None, tx1))"

section \<open>Aggregate maintainer (data-number.js)\<close>

definition deepEquals :: "ObservationDataNumber \<Rightarrow> ObservationDataNumber \<Rightarrow> bool" where
  "deepEquals this otherODN =
     (quantity this = quantity otherODN \<and> description this = description otherODN)"

datatype exn = TypeError

text \<open>
  \<open>otherODNDescriptions\<close> defaults to \<open>null\<close>; calling \<open>has\<close> on it throws. The result
  is the boolean returned and the object after the call.
\<close>

definition addObservation ::
  "ProjectDataNumber \<Rightarrow> ObservationDataNumber \<Rightarrow> jsstring set option
     \<Rightarrow> exn + bool \<times> ProjectDataNumber" where
  "addObservation this newObservationDataNumber otherODNDescriptions =
     (if must_be_unique this then
        (case otherODNDescriptions of
           None \<Rightarrow> Inl TypeError
         | Some others \<Rightarrow>
             if description newObservationDataNumber \<in> others then Inr (False, this)
             else Inr (True, this\<lparr>number := number this + 1\<rparr>))
      else Inr (True, this\<lparr>number := number this + quantity newObservationDataNumber\<rparr>))"

definition deleteObservation ::
  "ProjectDataNumber \<Rightarrow> ObservationDataNumber \<Rightarrow> jsstring set option
     \<Rightarrow> exn + bool \<times> ProjectDataNumber" where
  "deleteObservation this oldObservationDataNumber otherODNDescriptions =
     (if must_be_unique this then
        (case otherODNDescriptions of
           None \<Rightarrow> Inl TypeError
         | Some others \<Rightarrow>
             if description oldObservationDataNumber \<in> others then Inr (False, this)
             else Inr (True, this\<lparr>number := number this - 1\<rparr>))
      else Inr (True, this\<lparr>number := number this - quantity oldObservationDataNumber\<rparr>))"

text \<open>The loop of \<open>getOtherODNDescriptions\<close> over the query's results.\<close>

fun collect_descriptions ::
  "((nat \<times> nat) \<times> observation) list \<Rightarrow> nat option \<Rightarrow> jsstring set \<Rightarrow> jsstring set" where
  "collect_descriptions [] observationIdToExclude descriptionSet = descriptionSet"
| "collect_descriptions (ob # obs) observationIdToExclude descriptionSet =
     collect_descriptions obs observationIdToExclude
       (if Some (snd (fst ob)) \<noteq> observationIdToExclude
        then insert (description (obs_data_number (snd ob))) descriptionSet
        else descriptionSet)"

definition getOtherODNDescriptions ::
  "faults \<Rightarrow> transaction \<Rightarrow> nat \<Rightarrow> nat option \<Rightarrow> jsstring set option \<times> transaction" where
  "getOtherODNDescriptions flt tx projectKey observationIdToExclude =
     (if runQuery_throws flt (ObservationsOfProject projectKey) \<noteq> None then (None, tx)
      else
        (Some (collect_descriptions
                 (filter (\<lambda>ob. fst (fst ob) = projectKey) (observations (snapshot tx)))
                 observationIdToExclude {}),
         tx\<lparr>reads := reads tx @ [Queried (ObservationsOfProject projectKey)]\<rparr>))"

definition saveUpdatedProject ::
  "faults \<Rightarrow> transaction \<Rightarrow> nat \<Rightarrow> project \<Rightarrow> ProjectDataNumber \<Rightarrow> bool \<times> transaction" where
  "saveUpdatedProject flt tx projectKey currentProjectData newProjectDataNumber =
     (let m = SaveProject projectKey (currentProjectData\<lparr>data_number := newProjectDataNumber\<rparr>)
      in if mutation_throws flt m then (False, tx) else (True, queue m tx))"

definition processPostedObservation ::
  "faults \<Rightarrow> transaction \<Rightarrow> nat \<Rightarrow> project \<Rightarrow> ObservationDataNumber
     \<Rightarrow> exn + bool \<times> transaction" where
  "processPostedObservation flt tx projectKey projectData newObservationDataNumber =
     (let projectDataNumber = data_number projectData;
          fetched = (if must_be_unique projectDataNumber
                     then (case getOtherODNDescriptions flt tx projectKey None of
                             (None, tx1) \<Rightarrow> Inl tx1
                           | (Some others, tx1) \<Rightarrow> Inr (Some others, tx1))
                     else Inr (None, tx))
      in case fetched of
           Inl tx1 \<Rightarrow> Inr (False, tx1)
         | Inr (otherODNDescriptions, tx1) \<Rightarrow>
             (case addObservation projectDataNumber newObservationDataNumber
                     otherODNDescriptions of
                Inl e \<Rightarrow> Inl e
              | Inr (projectDataNumberChanged, projectDataNumber1) \<Rightarrow>
                  if projectDataNumberChanged then
                    (case saveUpdatedProject flt tx1 projectKey projectData projectDataNumber1 of
                       (succeeded, tx2) \<Rightarrow> if \<not> succeeded then Inr (False, tx2) else Inr (True, tx2))
                  else Inr (True, tx1)))"

definition processUpdatedObservation ::
  "faults \<Rightarrow> transaction \<Rightarrow> nat \<Rightarrow> nat \<Rightarrow> ObservationDataNumber \<Rightarrow> ObservationDataNumber
     \<Rightarrow> exn + bool \<times> transaction" where
  "processUpdatedObservation flt tx ancestorProject observationId oldODN newODN =
     (if deepEquals newODN oldODN then Inr (True, tx)
      else
        (case getAncestorData flt tx ancestorProject of
           (None, tx1) \<Rightarrow> Inr (False, tx1)
         | (Some currentProjectData, tx1) \<Rightarrow>
             (let projectDataNumber = data_number currentProjectData;
                  fetched =
                    (if must_be_unique projectDataNumber then
                       (if description oldODN = description newODN then Inl (True, tx1)
                        else (case getOtherODNDescriptions flt tx1 ancestorProject
                                     (Some observationId) of
                                (None, tx2) \<Rightarrow> Inl (False, tx2)
                              | (Some others, tx2) \<Rightarrow> Inr (Some others, tx2)))
                     else Inr (None, tx1))
              in case fetched of
                   Inl early \<Rightarrow> Inr early
                 | Inr (otherODNDescriptions, tx2) \<Rightarrow>
                     (let oldPDNNumber = number projectDataNumber in
                      case deleteObservation projectDataNumber oldODN otherODNDescriptions of
                        Inl e \<Rightarrow> Inl e
                      | Inr (d, projectDataNumber1) \<Rightarrow>
                          (case addObservation projectDataNumber1 newODN otherODNDescriptions of
                             Inl e \<Rightarrow> Inl e
                           | Inr (a, projectDataNumber2) \<Rightarrow>
                               (let newPDNNumber = number projectDataNumber2 in
                                if oldPDNNumber \<noteq> newPDNNumber then
                                  (case saveUpdatedProject flt tx2 ancestorProject
                                          currentProjectData projectDataNumber2 of
                                     (succeeded, tx3) \<Rightarrow>
                                       if \<not> succeeded then Inr (False, tx3)
                                       else Inr (True, tx3))
                                else Inr (True, tx2)))))))"

definition processDeletedObservation ::
  "faults \<Rightarrow> transaction \<Rightarrow> nat \<Rightarrow> nat \<Rightarrow> ObservationDataNumber
     \<Rightarrow> exn + bool \<times> transaction" where
  "processDeletedObservation flt tx ancestorProject observationId observationDataNumber =
     (case getAncestorData flt tx ancestorProject of
        (None, tx1) \<Rightarrow> Inr (False, tx1)
      | (Some currentProjectData, tx1) \<Rightarrow>
          (let projectDataNumber = data_number currentProjectData;
               fetched = (if must_be_unique projectDataNumber
                          then (case getOtherODNDescriptions flt tx1 ancestorProject
                                       (Some observationId) of
                                  (None, tx2) \<Rightarrow> Inl tx2
                                | (Some others, tx2) \<Rightarrow> Inr (Some others, tx2))
                          else Inr (None, tx1))
           in case fetched of
                Inl tx2 \<Rightarrow> Inr (False, tx2)
              | Inr (otherODNDescriptions, tx2) \<Rightarrow>
                  (case deleteObservation projectDataNumber observationDataNumber
                          otherODNDescriptions of
                     Inl e \<Rightarrow> Inl e
                   | Inr (projectDataNumberChanged, projectDataNumber1) \<Rightarrow>
                       if projectDataNumberChanged then
                         (case saveUpdatedProject flt tx2 ancestorProject currentProjectData
                                 projectDataNumber1 of
                            (succeeded, tx3) \<Rightarrow>
                              if \<not> succeeded then Inr (False, tx3) else Inr (True, tx3))
                       else Inr (True, tx2))))"

section \<open>Responses (server-response.js) and messages (constants.js)\<close>

datatype content =
    NoContent
  | ErrorContent string
  | IdAndSelf nat
  | NewIdAndSelf
  | ResetCodeChallenge jsstring jsstring jsstring
  | Entities "nat list" bool

record ServerResponse =
  status :: nat
  content :: content

definition new_ServerResponse :: "nat \<Rightarrow> content \<Rightarrow> ServerResponse" where
  "new_ServerResponse s c = \<lparr>status = s, content = c\<rparr>"

definition INVALID_PROPERTIES :: string where
  "INVALID_PROPERTIES = ''At least one parameter was missing, invalid, or extraneous.''"

definition INVALID_UPDATE :: string where
  "INVALID_UPDATE = ''No valid parameter was included or at least 1 parameter was invalid.''"

definition INVALID_IMAGE_URL :: string where
  "INVALID_IMAGE_URL = ''The image URL provided is improperly formatted, the image does not exist, or the image is not in an acceptable format''"

definition ITEM_NOT_FOUND :: string where
  "ITEM_NOT_FOUND = ''The item you requested could not be found.''"

definition ANCESTOR_NOT_FOUND :: string where
  "ANCESTOR_NOT_FOUND = ''The project with project_id cannot be found.''"

definition TEACHER_NOT_FOUND :: string where
  "TEACHER_NOT_FOUND = ''The teacher with teacher_id cannot be found.''"

definition CREDENTIAL_NOT_FOUND :: string where
  "CREDENTIAL_NOT_FOUND = ''No credentials could be found on file for the teacher whose credentials were provided.''"

definition SERVER_ERROR :: string where
  "SERVER_ERROR = ''An internal server error has occurred.''"

definition DEFAULT_PROFILE_PHOTO :: jsstring where
  "DEFAULT_PROFILE_PHOTO =
     js ''https://storage.googleapis.com/kidizen-science-images/1606709615803_defaultUserPhoto.png''"

definition RESET_CODE_LIFETIME :: nat where
  "RESET_CODE_LIFETIME = 30 * 60 * 1000"

section \<open>Image storage (parsed-image-url.js, storage.js)\<close>

text \<open>\<open>s.split(sep)\<close> for a separator of one code unit.\<close>

fun split_at :: "16 word \<Rightarrow> jsstring \<Rightarrow> jsstring \<Rightarrow> jsstring list" where
  "split_at sep [] cur = [cur]"
| "split_at sep (u # us) cur =
     (if u = sep then cur # split_at sep us [] else split_at sep us (cur @ [u]))"

definition split :: "jsstring \<Rightarrow> 16 word \<Rightarrow> jsstring list" where
  "split s sep = split_at sep s []"

record ParsedImageUrl =
  baseUrl :: jsstring
  bucketName :: jsstring
  fileName :: jsstring

text \<open>The constructor throws unless the URL splits into five components.\<close>

definition new_ParsedImageUrl :: "jsstring \<Rightarrow> ParsedImageUrl option" where
  "new_ParsedImageUrl imageUrl =
     (case split imageUrl 0x2F of
        [a, b, c, d, e] \<Rightarrow> Some \<lparr>baseUrl = a @ js ''//'' @ c, bucketName = d, fileName = e\<rparr>
      | _ \<Rightarrow> None)"

text \<open>
  The bucket is the set of its file names. \<open>deleteImage\<close> catches every throw and
  answers \<open>false\<close>.
\<close>

definition deleteImage :: "faults \<Rightarrow> jsstring \<Rightarrow> jsstring set \<Rightarrow> bool \<times> jsstring set" where
  "deleteImage flt imageUrl bucket =
     (case new_ParsedImageUrl imageUrl of
        None \<Rightarrow> (False, bucket)
      | Some parsedImageUrl \<Rightarrow>
          if file_delete_throws flt (fileName parsedImageUrl) then (False, bucket)
          else (True, bucket - {fileName parsedImageUrl}))"

section \<open>Observation requests (crud.js)\<close>

text \<open>
  \<open>postEntity\<close>, \<open>updateEntity\<close> and \<open>deleteEntity\<close> on the \<open>observations\<close>
  collection, for a request body that passed \<open>validateProperties\<close>. The world is the
  store and the image bucket. Two outcomes are given by the environment: what
  \<open>validateAuthHeader\<close> answers for the expected teacher id (\<open>None\<close> for \<open>null\<close>), and
  whether \<open>validateImageUrl\<close> accepts a URL. A rollback drops the transaction, so the
  store is returned as it was; a deleted image stays deleted.
\<close>

record world =
  store :: datastore
  bucket :: "jsstring set"

record checks =
  auth :: "jsstring \<Rightarrow> ServerResponse option"
  image_valid :: "jsstring \<Rightarrow> bool"

record observation_patch =
  patch_data_number :: "ObservationDataNumber option"
  patch_data_image_url :: "jsstring option"

definition server_error :: ServerResponse where
  "server_error = new_ServerResponse 500 (ErrorContent SERVER_ERROR)"

definition getTeacherOfProject ::
  "faults \<Rightarrow> transaction \<Rightarrow> nat \<Rightarrow> jsstring option \<times> transaction" where
  "getTeacherOfProject flt tx projectId =
     (case get_project flt tx projectId of
        Inl u \<Rightarrow> (None, tx)
      | Inr (None, tx1) \<Rightarrow> (None, tx1)
      | Inr (Some project, tx1) \<Rightarrow> (Some (teacher_id project), tx1))"

definition postEntity_observation ::
  "faults \<Rightarrow> checks \<Rightarrow> nat \<Rightarrow> observation \<Rightarrow> world \<Rightarrow> ServerResponse \<times> world" where
  "postEntity_observation flt chk ancestorId entityData w =
     (if \<not> image_valid chk (data_image_url entityData) then
        (new_ServerResponse 400 (ErrorContent INVALID_IMAGE_URL), w)
      else
        (case getAncestorData flt (begin_transaction (store w)) ancestorId of
           (None, tx1) \<Rightarrow> (new_ServerResponse 404 (ErrorContent ANCESTOR_NOT_FOUND), w)
         | (Some ancestorData, tx1) \<Rightarrow>
             (case auth chk (teacher_id ancestorData) of
                Some responseInfo \<Rightarrow> (responseInfo, w)
              | None \<Rightarrow>
                  if mutation_throws flt (InsertObservation ancestorId entityData)
                  then (server_error, w)
                  else
                    (case processPostedObservation flt
                            (queue (InsertObservation ancestorId entityData) tx1)
                            ancestorId ancestorData (obs_data_number entityData) of
                       Inl e \<Rightarrow> (server_error, w)
                     | Inr (succeeded, tx2) \<Rightarrow>
                         if \<not> succeeded then (server_error, w)
                         else if commit_throws flt then (server_error, w)
                         else (new_ServerResponse 201 NewIdAndSelf,
                               w\<lparr>store := commit tx2\<rparr>)))))"

text \<open>The image step of \<open>updateEntity\<close>: \<open>None\<close> is its 400 return.\<close>

definition update_image ::
  "faults \<Rightarrow> checks \<Rightarrow> jsstring \<Rightarrow> jsstring option \<Rightarrow> jsstring set \<Rightarrow> jsstring set option" where
  "update_image flt chk oldImageUrl newImageUrl b =
     (case newImageUrl of
        None \<Rightarrow> Some b
      | Some new \<Rightarrow>
          if new \<noteq> oldImageUrl then
            (if \<not> image_valid chk new then None
             else if oldImageUrl \<noteq> DEFAULT_PROFILE_PHOTO
                  then Some (snd (deleteImage flt oldImageUrl b))
             else Some b)
          else Some b)"

definition apply_patch :: "observation_patch \<Rightarrow> observation \<Rightarrow> observation" where
  "apply_patch entityPatches entityToUpdate =
     entityToUpdate
       \<lparr>obs_data_number :=
          (case patch_data_number entityPatches of
             Some d \<Rightarrow> d | None \<Rightarrow> obs_data_number entityToUpdate),
        data_image_url :=
          (case patch_data_image_url entityPatches of
             Some u \<Rightarrow> u | None \<Rightarrow> data_image_url entityToUpdate)\<rparr>"

definition updateEntity_observation ::
  "faults \<Rightarrow> checks \<Rightarrow> nat \<Rightarrow> nat \<Rightarrow> observation_patch \<Rightarrow> world
     \<Rightarrow> ServerResponse \<times> world" where
  "updateEntity_observation flt chk ancestorId entityId entityPatches w =
     (case get_observation flt (begin_transaction (store w)) ancestorId entityId of
        Inl u \<Rightarrow> (server_error, w)
      | Inr (None, tx1) \<Rightarrow> (new_ServerResponse 404 (ErrorContent ITEM_NOT_FOUND), w)
      | Inr (Some entityToUpdate, tx1) \<Rightarrow>
          (case getTeacherOfProject flt tx1 ancestorId of
             (None, tx2) \<Rightarrow> (server_error, w)
           | (Some teacherIdExpected, tx2) \<Rightarrow>
               (case auth chk teacherIdExpected of
                  Some responseInfo \<Rightarrow> (responseInfo, w)
                | None \<Rightarrow>
                    (case update_image flt chk (data_image_url entityToUpdate)
                            (patch_data_image_url entityPatches) (bucket w) of
                       None \<Rightarrow> (new_ServerResponse 400 (ErrorContent INVALID_IMAGE_URL), w)
                     | Some b \<Rightarrow>
                         (let w1 = w\<lparr>bucket := b\<rparr>;
                              m = SaveObservation ancestorId entityId
                                    (apply_patch entityPatches entityToUpdate)
                          in if mutation_throws flt m then (server_error, w1)
                             else
                               (case patch_data_number entityPatches of
                                  None \<Rightarrow>
                                    if commit_throws flt then (server_error, w1)
                                    else (new_ServerResponse 200 (IdAndSelf entityId),
                                          w1\<lparr>store := commit (queue m tx2)\<rparr>)
                                | Some newODN \<Rightarrow>
                                    (case processUpdatedObservation flt (queue m tx2) ancestorId
                                            entityId (obs_data_number entityToUpdate) newODN of
                                       Inl e \<Rightarrow> (server_error, w1)
                                     | Inr (succeeded, tx3) \<Rightarrow>
                                         if \<not> succeeded then (server_error, w1)
                                         else if commit_throws flt then (server_error, w1)
                                         else (new_ServerResponse 200 (IdAndSelf entityId),
                                               w1\<lparr>store := commit tx3\<rparr>))))))))"

definition deleteEntity_observation ::
  "faults \<Rightarrow> checks \<Rightarrow> nat \<Rightarrow> nat \<Rightarrow> world \<Rightarrow> ServerResponse \<times> world" where
  "deleteEntity_observation flt chk ancestorId entityId w =
     (case get_observation flt (begin_transaction (store w)) ancestorId entityId of
        Inl u \<Rightarrow> (server_error, w)
      | Inr (None, tx1) \<Rightarrow> (new_ServerResponse 404 (ErrorContent ITEM_NOT_FOUND), w)
      | Inr (Some entity, tx1) \<Rightarrow>
          (case getTeacherOfProject flt tx1 ancestorId of
             (None, tx2) \<Rightarrow> (server_error, w)
           | (Some teacherIdExpected, tx2) \<Rightarrow>
               (case auth chk teacherIdExpected of
                  Some responseInfo \<Rightarrow> (responseInfo, w)
                | None \<Rightarrow>
                    (let w1 = (if data_image_url entity \<noteq> DEFAULT_PROFILE_PHOTO
                               then w\<lparr>bucket :=
                                      snd (deleteImage flt (data_image_url entity) (bucket w))\<rparr>
                               else w);
                         m = DeleteKeys [ObservationKey ancestorId entityId]
                     in if mutation_throws flt m then (server_error, w1)
                        else
                          (case processDeletedObservation flt (queue m tx2) ancestorId entityId
                                  (obs_data_number entity) of
                             Inl e \<Rightarrow> (server_error, w1)
                           | Inr (succeeded, tx3) \<Rightarrow>
                               if \<not> succeeded then (server_error, w1)
                               else if commit_throws flt then (server_error, w1)
                               else (new_ServerResponse 204 NoContent,
                                     w1\<lparr>store := commit tx3\<rparr>))))))"

text \<open>A run of observation requests, each with the faults and checks it meets.\<close>

datatype request =
    PostObservation nat observation
  | PatchObservation nat nat observation_patch
  | DeleteObservation nat nat

fun handle :: "faults \<Rightarrow> checks \<Rightarrow> request \<Rightarrow> world \<Rightarrow> ServerResponse \<times> world" where
  "handle flt chk (PostObservation pid ob) w = postEntity_observation flt chk pid ob w"
| "handle flt chk (PatchObservation pid oid patch) w =
     updateEntity_observation flt chk pid oid patch w"
| "handle flt chk (DeleteObservation pid oid) w = deleteEntity_observation flt chk pid oid w"

fun run :: "(faults \<times> checks \<times> request) list \<Rightarrow> world \<Rightarrow> world" where
  "run [] w = w"
| "run ((flt, chk, r) # rs) w = run rs (snd (handle flt chk r w))"





section \<open>Numbers as strings\<close>

text \<open>
  \<open>n.toString(10)\<close> for a whole number below \<open>10^21\<close>, and \<open>parseInt(s, 10)\<close>:
  leading white space is skipped, a sign is read, then the longest run of decimal
  digits; with no digit the result is \<open>NaN\<close>, here \<open>None\<close>. Every comparison with
  \<open>NaN\<close> is false.
\<close>

definition digit_char :: "nat \<Rightarrow> 16 word" where
  "digit_char d = of_nat (48 + d)"

function toString10 :: "nat \<Rightarrow> jsstring" where
  "toString10 n =
     (if n < 10 then [digit_char n] else toString10 (n div 10) @ [digit_char (n mod 10)])"
  by pat_completeness auto
termination
  by (relation "measure id") auto

declare toString10.simps [simp del]

definition is_digit :: "16 word \<Rightarrow> bool" where
  "is_digit u = (0x30 \<le> u \<and> u \<le> 0x39)"

definition is_whitespace :: "16 word \<Rightarrow> bool" where
  "is_whitespace u =
     (u \<in> {0x09, 0x0A, 0x0B, 0x0C, 0x0D, 0x20, 0xA0, 0x1680, 0x2028, 0x2029, 0x202F,
            0x205F, 0x3000, 0xFEFF}
      \<or> (0x2000 \<le> u \<and> u \<le> 0x200A))"

definition digits_value :: "jsstring \<Rightarrow> nat" where
  "digits_value ds = foldl (\<lambda>acc u. acc * 10 + (unat u - 48)) 0 ds"

definition parseInt :: "jsstring \<Rightarrow> int option" where
  "parseInt s =
     (let t = dropWhile is_whitespace s;
          sign = (case t of u # us \<Rightarrow> if u = 0x2D then - 1 else 1 | [] \<Rightarrow> (1::int));
          r = (case t of u # us \<Rightarrow> if u = 0x2D \<or> u = 0x2B then us else t | [] \<Rightarrow> []);
          ds = takeWhile is_digit r
      in if ds = [] then None else Some (sign * int (digits_value ds)))"

text \<open>The numeric id of a key made from an id string of the request.\<close>

definition key_id :: "jsstring \<Rightarrow> nat option" where
  "key_id s = (case parseInt s of Some n \<Rightarrow> if 0 \<le> n then Some (nat n) else None | None \<Rightarrow> None)"

section \<open>Credentials (auth.js)\<close>

text \<open>
  What the module takes from its libraries. \<open>encryptString\<close> is CryptoJS's AES under
  the process secret; it salts every ciphertext at random, so its result depends on the
  call: the first argument is the number of encryptions made before it.
  \<open>base64_to_utf8\<close> is \<open>Buffer.from(s, "base64").toString("utf8")\<close>.
\<close>

record library =
  encryptString :: "nat \<Rightarrow> jsstring \<Rightarrow> jsstring"
  decryptString :: "jsstring \<Rightarrow> jsstring"
  base64_to_utf8 :: "jsstring \<Rightarrow> jsstring"

text \<open>
  \<open>deepCompare\<close> reads the four members of whatever it is given and compares them with
  \<open>!==\<close>.
\<close>

definition deepCompare :: "secret_questions \<Rightarrow> jsval \<Rightarrow> bool" where
  "deepCompare this otherSecretQuestions =
     (if JString (question_1 this) \<noteq> member_of otherSecretQuestions (js ''question_1'') then False
      else if JString (question_2 this) \<noteq> member_of otherSecretQuestions (js ''question_2'')
      then False
      else if JString (answer_1 this) \<noteq> member_of otherSecretQuestions (js ''answer_1'') then False
      else if JString (answer_2 this) \<noteq> member_of otherSecretQuestions (js ''answer_2'') then False
      else True)"

definition new_ResetCode :: reset_code where
  "new_ResetCode = \<lparr>code = [], expires = []\<rparr>"

definition refreshCode :: "nat \<Rightarrow> jsstring \<Rightarrow> reset_code \<Rightarrow> reset_code" where
  "refreshCode now uuid this = \<lparr>code = uuid, expires = toString10 (now + RESET_CODE_LIFETIME)\<rparr>"

definition isUnexpired :: "nat \<Rightarrow> reset_code \<Rightarrow> bool" where
  "isUnexpired now this =
     (case parseInt (expires this) of
        None \<Rightarrow> False
      | Some expirationTime \<Rightarrow> int now < expirationTime)"

definition clearCode :: "reset_code \<Rightarrow> reset_code" where
  "clearCode this = \<lparr>code = [], expires = []\<rparr>"

text \<open>
  The methods of \<open>Credential\<close> act on its \<open>data\<close>. Those that encrypt take the number
  \<open>k\<close> of encryptions made so far and return the new count. The members are encrypted
  in the order \<open>Object.keys\<close> lists them.
\<close>

definition encryptPassword :: "library \<Rightarrow> nat \<Rightarrow> credential_data \<Rightarrow> credential_data \<times> nat" where
  "encryptPassword lib k this = (this\<lparr>password := encryptString lib k (password this)\<rparr>, k + 1)"

definition encryptSecretQuestions ::
  "library \<Rightarrow> nat \<Rightarrow> credential_data \<Rightarrow> credential_data \<times> nat" where
  "encryptSecretQuestions lib k this =
     (this\<lparr>secret_questions :=
        \<lparr>question_1 = encryptString lib k (question_1 (secret_questions this)),
         question_2 = encryptString lib (k + 1) (question_2 (secret_questions this)),
         answer_1 = encryptString lib (k + 2) (answer_1 (secret_questions this)),
         answer_2 = encryptString lib (k + 3) (answer_2 (secret_questions this))\<rparr>\<rparr>,
      k + 4)"

definition encryptResetCode :: "library \<Rightarrow> nat \<Rightarrow> credential_data \<Rightarrow> credential_data \<times> nat" where
  "encryptResetCode lib k this =
     (this\<lparr>reset_code :=
        \<lparr>code = encryptString lib k (code (reset_code this)),
         expires = encryptString lib (k + 1) (expires (reset_code this))\<rparr>\<rparr>,
      k + 2)"

definition decryptPassword :: "library \<Rightarrow> credential_data \<Rightarrow> credential_data" where
  "decryptPassword lib this = this\<lparr>password := decryptString lib (password this)\<rparr>"

definition decryptSecretQuestions :: "library \<Rightarrow> credential_data \<Rightarrow> credential_data" where
  "decryptSecretQuestions lib this =
     this\<lparr>secret_questions :=
        \<lparr>question_1 = decryptString lib (question_1 (secret_questions this)),
         question_2 = decryptString lib (question_2 (secret_questions this)),
         answer_1 = decryptString lib (answer_1 (secret_questions this)),
         answer_2 = decryptString lib (answer_2 (secret_questions this))\<rparr>\<rparr>"

definition decryptResetCode :: "library \<Rightarrow> credential_data \<Rightarrow> credential_data" where
  "decryptResetCode lib this =
     this\<lparr>reset_code :=
        \<lparr>code = decryptString lib (code (reset_code this)),
         expires = decryptString lib (expires (reset_code this))\<rparr>\<rparr>"

text \<open>The constructor with \<open>encrypted = false\<close> and no \<open>reset_code\<close> in the data given.\<close>

definition new_Credential ::
  "library \<Rightarrow> nat \<Rightarrow> jsstring \<Rightarrow> secret_questions \<Rightarrow> credential_data \<times> nat" where
  "new_Credential lib k pw sq =
     (case encryptPassword lib k
             \<lparr>password = pw, secret_questions = sq, reset_code = new_ResetCode\<rparr> of
        (c1, k1) \<Rightarrow>
          (case encryptSecretQuestions lib k1 c1 of
             (c2, k2) \<Rightarrow> encryptResetCode lib k2 c2))"

definition generateResetCodeChallenge ::
  "library \<Rightarrow> nat \<Rightarrow> nat \<Rightarrow> jsstring \<Rightarrow> credential_data \<Rightarrow> content \<times> credential_data \<times> nat" where
  "generateResetCodeChallenge lib k now uuid this =
     (let c1 = decryptSecretQuestions lib this;
          decrypted_secret_question_1 = question_1 (secret_questions c1);
          decrypted_secret_question_2 = question_2 (secret_questions c1)
      in case encryptSecretQuestions lib k c1 of
           (c2, k2) \<Rightarrow>
             (let c3 = c2\<lparr>reset_code := refreshCode now uuid (reset_code c2)\<rparr>;
                  refereshed_reset_code = code (reset_code c3)
              in case encryptResetCode lib k2 c3 of
                   (c4, k4) \<Rightarrow>
                     (ResetCodeChallenge decrypted_secret_question_1
                        decrypted_secret_question_2 refereshed_reset_code, c4, k4)))"

definition updatePassword ::
  "library \<Rightarrow> nat \<Rightarrow> jsstring \<Rightarrow> credential_data \<Rightarrow> credential_data \<times> nat" where
  "updatePassword lib k newPassword this = encryptPassword lib k (this\<lparr>password := newPassword\<rparr>)"

definition updateSecretQuestions ::
  "library \<Rightarrow> nat \<Rightarrow> secret_questions \<Rightarrow> credential_data \<Rightarrow> credential_data \<times> nat" where
  "updateSecretQuestions lib k newSecretQuestions this =
     encryptSecretQuestions lib k (this\<lparr>secret_questions := newSecretQuestions\<rparr>)"

definition clearResetCode :: "library \<Rightarrow> nat \<Rightarrow> credential_data \<Rightarrow> credential_data \<times> nat" where
  "clearResetCode lib k this =
     encryptResetCode lib k (this\<lparr>reset_code := clearCode (reset_code this)\<rparr>)"

definition passwordsMatch ::
  "library \<Rightarrow> nat \<Rightarrow> jsval \<Rightarrow> credential_data \<Rightarrow> bool \<times> credential_data \<times> nat" where
  "passwordsMatch lib k passwordFromClient this =
     (let c1 = decryptPassword lib this;
          passwordsAreEqual = (passwordFromClient = JString (password c1))
      in case encryptPassword lib k c1 of (c2, k2) \<Rightarrow> (passwordsAreEqual, c2, k2))"

definition secretQuestionsMatch ::
  "library \<Rightarrow> nat \<Rightarrow> jsval \<Rightarrow> credential_data \<Rightarrow> bool \<times> credential_data \<times> nat" where
  "secretQuestionsMatch lib k secretQuestionsFromClient this =
     (let c1 = decryptSecretQuestions lib this;
          questionsAreEqual = deepCompare (secret_questions c1) secretQuestionsFromClient
      in case encryptSecretQuestions lib k c1 of (c2, k2) \<Rightarrow> (questionsAreEqual, c2, k2))"

definition resetCodeValid ::
  "library \<Rightarrow> nat \<Rightarrow> nat \<Rightarrow> jsval \<Rightarrow> credential_data \<Rightarrow> bool \<times> credential_data \<times> nat" where
  "resetCodeValid lib k now resetCodeFromClient this =
     (let c1 = decryptResetCode lib this;
          resetCodesMatch = (resetCodeFromClient = JString (code (reset_code c1)));
          resetCodeUnexpired = isUnexpired now (reset_code c1)
      in case encryptResetCode lib k c1 of
           (c2, k2) \<Rightarrow> (resetCodesMatch \<and> resetCodeUnexpired, c2, k2))"



text \<open>\<open>s.indexOf(u)\<close> for one code unit: \<open>None\<close> stands for \<open>-1\<close>.\<close>

fun index_from :: "16 word \<Rightarrow> jsstring \<Rightarrow> nat \<Rightarrow> nat option" where
  "index_from u [] i = None"
| "index_from u (v # vs) i = (if v = u then Some i else index_from u vs (i + 1))"

definition indexOf :: "jsstring \<Rightarrow> 16 word \<Rightarrow> nat option" where
  "indexOf s u = index_from u s 0"

text \<open>
  \<open>getCredential\<close>: the one credential whose ancestor is the teacher, with its key;
  \<open>null\<close> when there is none or more than one, and on any throw.
\<close>

definition getCredential ::
  "faults \<Rightarrow> transaction \<Rightarrow> jsstring
     \<Rightarrow> ((nat \<times> nat) \<times> credential_data) option \<times> transaction" where
  "getCredential flt tx teacherId =
     (case key_id teacherId of
        None \<Rightarrow> (None, tx)
      | Some tid \<Rightarrow>
          if runQuery_throws flt (CredentialsOfTeacher tid) \<noteq> None then (None, tx)
          else
            ((case filter (\<lambda>c. fst (fst c) = tid) (credentials (snapshot tx)) of
                [entity] \<Rightarrow> Some entity
              | _ \<Rightarrow> None),
             tx\<lparr>reads := reads tx @ [Queried (CredentialsOfTeacher tid)]\<rparr>))"

text \<open>
  \<open>validateAuthHeader\<close>. The header is \<open>None\<close> when the request has none. The result is
  the response (\<open>None\<close> for \<open>null\<close>), the \<open>credentialExpected\<close> object as the call leaves
  it (the caller's own object when it passed one), the count of encryptions and the
  transaction.
\<close>

definition validateAuthHeader ::
  "library \<Rightarrow> faults \<Rightarrow> nat \<Rightarrow> nat \<Rightarrow> transaction \<Rightarrow> jsstring option \<Rightarrow> jsstring option
     \<Rightarrow> ((nat \<times> nat) \<times> credential_data) option \<Rightarrow> bool
     \<Rightarrow> ServerResponse option \<times> ((nat \<times> nat) \<times> credential_data) option \<times> nat \<times> transaction"
  where
  "validateAuthHeader lib flt now k tx authReceived teacherIdExpected credentialExpected
       useResetCode =
     (case authReceived of
        None \<Rightarrow>
          (Some (new_ServerResponse 401
                   (ErrorContent ''Authorization is required to access this endpoint.'')),
           credentialExpected, k, tx)
      | Some header \<Rightarrow>
          if header = [] then
            (Some (new_ServerResponse 401
                     (ErrorContent ''Authorization is required to access this endpoint.'')),
             credentialExpected, k, tx)
          else
            (case indexOf header 0x20 of
               None \<Rightarrow>
                 (Some (new_ServerResponse 400
                    (ErrorContent ''The authorization credentials included could not be parsed'')),
                  credentialExpected, k, tx)
             | Some spaceIndex \<Rightarrow>
                 if spaceIndex \<le> 0 then
                   (Some (new_ServerResponse 400
                      (ErrorContent ''The authorization credentials included could not be parsed'')),
                    credentialExpected, k, tx)
                 else if take spaceIndex header \<noteq> js ''Basic'' then
                   (Some (new_ServerResponse 401
                      (ErrorContent ''Only Basic-type authorization headers are accepted'')),
                    credentialExpected, k, tx)
                 else
                   (case split (base64_to_utf8 lib (drop (spaceIndex + 1) header)) 0x3A of
                      [teacherIdReceived, passwordReceived] \<Rightarrow>
                        if teacherIdExpected \<noteq> None
                           \<and> Some teacherIdReceived \<noteq> teacherIdExpected then
                          (Some (new_ServerResponse 403
                             (ErrorContent ''The teacher whose authorization credentials were provided does not own this resource.'')),
                           credentialExpected, k, tx)
                        else
                          (case (case credentialExpected of
                                   None \<Rightarrow> getCredential flt tx teacherIdReceived
                                 | Some c \<Rightarrow> (Some c, tx)) of
                             (None, tx1) \<Rightarrow>
                               (Some (new_ServerResponse 404 (ErrorContent CREDENTIAL_NOT_FOUND)),
                                None, k, tx1)
                           | (Some (ckey, cdata), tx1) \<Rightarrow>
                               if useResetCode then
                                 (case resetCodeValid lib k now (JString passwordReceived) cdata of
                                    (valid, cdata1, k1) \<Rightarrow>
                                      if \<not> valid then
                                        (Some (new_ServerResponse 401
                                           (ErrorContent ''The reset code provided is incorrect and/or expired.'')),
                                         Some (ckey, cdata1), k1, tx1)
                                      else (None, Some (ckey, cdata1), k1, tx1))
                               else
                                 (case passwordsMatch lib k (JString passwordReceived) cdata of
                                    (matches, cdata1, k1) \<Rightarrow>
                                      if \<not> matches then
                                        (Some (new_ServerResponse 401
                                           (ErrorContent ''The password provided is incorrect.'')),
                                         Some (ckey, cdata1), k1, tx1)
                                      else (None, Some (ckey, cdata1), k1, tx1)))
                    | _ \<Rightarrow>
                        (Some (new_ServerResponse 400
                           (ErrorContent ''The authorization credentials included could not be parsed'')),
                         credentialExpected, k, tx))))"

text \<open>The property sets of the teacher and credential entity types (constants.js).\<close>

definition teachers_createProperties :: "property list" where
  "teachers_createProperties =
     [new_Property ''name'' VALIDATE_STRING True,
      new_Property ''email'' VALIDATE_STRING True,
      new_Property ''school'' VALIDATE_STRING True,
      new_Property ''password'' VALIDATE_PASSWORD True,
      new_Property ''secret_questions'' VALIDATE_SECRET_QUESTIONS True]"

definition credential_createProperties :: "property list" where
  "credential_createProperties =
     [new_Property ''password'' VALIDATE_PASSWORD True,
      new_Property ''secret_questions'' VALIDATE_SECRET_QUESTIONS True]"

definition credential_updateProperties :: "property list" where
  "credential_updateProperties =
     [new_Property ''password'' VALIDATE_PASSWORD False,
      new_Property ''secret_questions'' VALIDATE_SECRET_QUESTIONS False]"

text \<open>
  \<open>new SecretQuestions(json)\<close> followed by the encryption of its members, which needs
  them to be strings: \<open>None\<close> is the throw of the encryption otherwise.
\<close>

definition new_SecretQuestions :: "jsval \<Rightarrow> secret_questions option" where
  "new_SecretQuestions v =
     (case (member_of v (js ''question_1''), member_of v (js ''question_2''),
            member_of v (js ''answer_1''), member_of v (js ''answer_2'')) of
        (JString q1, JString q2, JString a1, JString a2) \<Rightarrow>
          Some \<lparr>question_1 = q1, question_2 = q2, answer_1 = a1, answer_2 = a2\<rparr>
      | _ \<Rightarrow> None)"

definition teacherExists_id :: "faults \<Rightarrow> transaction \<Rightarrow> jsstring \<Rightarrow> bool \<times> transaction" where
  "teacherExists_id flt tx teacherId =
     (case key_id teacherId of
        None \<Rightarrow> (False, tx)
      | Some tid \<Rightarrow> teacherExists flt tx tid)"

text \<open>
  \<open>getCredentialResetChallenge\<close>, \<open>resetUnknownPassword\<close> and
  \<open>updateCredentialPasswordKnown\<close>. Each returns the response, the store and the count
  of encryptions. \<open>now\<close> is \<open>Date.now()\<close>, \<open>uuid\<close> what \<open>uuid.v4()\<close> draws.
\<close>

definition getCredentialResetChallenge ::
  "library \<Rightarrow> faults \<Rightarrow> nat \<Rightarrow> jsstring \<Rightarrow> nat \<Rightarrow> jsstring \<Rightarrow> datastore
     \<Rightarrow> ServerResponse \<times> datastore \<times> nat" where
  "getCredentialResetChallenge lib flt now uuid k teacherId db =
     (case getCredential flt (begin_transaction db) teacherId of
        (None, tx1) \<Rightarrow> (new_ServerResponse 404 (ErrorContent TEACHER_NOT_FOUND), db, k)
      | (Some (ckey, cdata), tx1) \<Rightarrow>
          (case generateResetCodeChallenge lib k now uuid cdata of
             (resetCodeChallenge, cdata1, k1) \<Rightarrow>
               if mutation_throws flt (SaveCredential (fst ckey) (snd ckey) cdata1)
                  \<or> commit_throws flt
               then (server_error, db, k1)
               else (new_ServerResponse 200 resetCodeChallenge,
                     commit (queue (SaveCredential (fst ckey) (snd ckey) cdata1) tx1), k1)))"

definition resetUnknownPassword ::
  "library \<Rightarrow> faults \<Rightarrow> nat \<Rightarrow> nat \<Rightarrow> (jsstring \<times> jsval) list \<Rightarrow> jsstring \<Rightarrow> jsstring option
     \<Rightarrow> datastore \<Rightarrow> ServerResponse \<times> datastore \<times> nat" where
  "resetUnknownPassword lib flt now k requestBody teacherId authReceived db =
     (if \<not> validateProperties requestBody credential_createProperties then
        (new_ServerResponse 400 (ErrorContent INVALID_UPDATE), db, k)
      else
        (case teacherExists_id flt (begin_transaction db) teacherId of
           (False, tx1) \<Rightarrow> (new_ServerResponse 404 (ErrorContent TEACHER_NOT_FOUND), db, k)
         | (True, tx1) \<Rightarrow>
             (case getCredential flt tx1 teacherId of
                (None, tx2) \<Rightarrow>
                  (new_ServerResponse 404 (ErrorContent CREDENTIAL_NOT_FOUND), db, k)
              | (Some credentialToUpdate, tx2) \<Rightarrow>
                  (case validateAuthHeader lib flt now k tx2 authReceived (Some teacherId)
                          (Some credentialToUpdate) True of
                     (Some responseInfo, c, k1, tx3) \<Rightarrow> (responseInfo, db, k1)
                   | (None, None, k1, tx3) \<Rightarrow> (server_error, db, k1)
                   | (None, Some (ckey, cdata1), k1, tx3) \<Rightarrow>
                       (case secretQuestionsMatch lib k1
                               (get_prop requestBody (js ''secret_questions'')) cdata1 of
                          (questionsMatch, cdata2, k2) \<Rightarrow>
                            if \<not> questionsMatch then
                              (new_ServerResponse 401
                                 (ErrorContent ''The secret questions and answers provided do not match those on file.''),
                               db, k2)
                            else
                              (case passwordsMatch lib k2
                                      (get_prop requestBody (js ''password'')) cdata2 of
                                 (samePassword, cdata3, k3) \<Rightarrow>
                                   if samePassword then
                                     (new_ServerResponse 403
                                        (ErrorContent ''The new password cannot match the old one.''),
                                      db, k3)
                                   else
                                     (case get_prop requestBody (js ''password'') of
                                        JString newPassword \<Rightarrow>
                                          (case updatePassword lib k3 newPassword cdata3 of
                                             (cdata4, k4) \<Rightarrow>
                                               (case clearResetCode lib k4 cdata4 of
                                                  (cdata5, k5) \<Rightarrow>
                                                    if mutation_throws flt
                                                         (SaveCredential (fst ckey) (snd ckey) cdata5)
                                                       \<or> commit_throws flt
                                                    then (server_error, db, k5)
                                                    else
                                                      (new_ServerResponse 204 NoContent,
                                                       commit (queue (SaveCredential (fst ckey)
                                                                 (snd ckey) cdata5) tx3),
                                                       k5)))
                                      | _ \<Rightarrow> (server_error, db, k3))))))))"

definition updateCredentialPasswordKnown ::
  "library \<Rightarrow> faults \<Rightarrow> nat \<Rightarrow> nat \<Rightarrow> (jsstring \<times> jsval) list \<Rightarrow> jsstring \<Rightarrow> jsstring option
     \<Rightarrow> datastore \<Rightarrow> ServerResponse \<times> datastore \<times> nat" where
  "updateCredentialPasswordKnown lib flt now k credentialPatches teacherId authReceived db =
     (if \<not> validateProperties credentialPatches credential_updateProperties then
        (new_ServerResponse 400 (ErrorContent INVALID_UPDATE), db, k)
      else
        (case teacherExists_id flt (begin_transaction db) teacherId of
           (False, tx1) \<Rightarrow> (new_ServerResponse 404 (ErrorContent TEACHER_NOT_FOUND), db, k)
         | (True, tx1) \<Rightarrow>
             (case getCredential flt tx1 teacherId of
                (None, tx2) \<Rightarrow>
                  (new_ServerResponse 404 (ErrorContent CREDENTIAL_NOT_FOUND), db, k)
              | (Some credentialToUpdate, tx2) \<Rightarrow>
                  (case validateAuthHeader lib flt now k tx2 authReceived (Some teacherId)
                          (Some credentialToUpdate) False of
                     (Some responseInfo, c, k1, tx3) \<Rightarrow> (responseInfo, db, k1)
                   | (None, None, k1, tx3) \<Rightarrow> (server_error, db, k1)
                   | (None, Some (ckey, cdata1), k1, tx3) \<Rightarrow>
                       (case (if js ''password'' \<in> set (map fst credentialPatches)
                              then (case get_prop credentialPatches (js ''password'') of
                                      JString newPassword \<Rightarrow>
                                        Some (updatePassword lib k1 newPassword cdata1)
                                    | _ \<Rightarrow> None)
                              else Some (cdata1, k1)) of
                          None \<Rightarrow> (server_error, db, k1)
                        | Some (cdata2, k2) \<Rightarrow>
                            (case (if js ''secret_questions'' \<in> set (map fst credentialPatches)
                                   then (case new_SecretQuestions
                                                 (get_prop credentialPatches (js ''secret_questions'')) of
                                           Some newSecretQuestions \<Rightarrow>
                                             Some (updateSecretQuestions lib k2 newSecretQuestions cdata2)
                                         | None \<Rightarrow> None)
                                   else Some (cdata2, k2)) of
                               None \<Rightarrow> (server_error, db, k2)
                             | Some (cdata3, k3) \<Rightarrow>
                                 if mutation_throws flt
                                      (SaveCredential (fst ckey) (snd ckey) cdata3)
                                    \<or> commit_throws flt
                                 then (server_error, db, k3)
                                 else
                                   (new_ServerResponse 204 NoContent,
                                    commit (queue (SaveCredential (fst ckey) (snd ckey) cdata3) tx3),
                                    k3)))))))"

definition sample_library :: library where
  "sample_library =
     \<lparr>encryptString = (\<lambda>k s. of_nat k # s), decryptString = tl, base64_to_utf8 = (\<lambda>s. s)\<rparr>"

section \<open>Creating a teacher (crud.js, auth.js)\<close>

text \<open>
  \<open>postEntity\<close> on the \<open>teachers\<close> collection. The type requires no credentials for
  POST and has no ancestor. The teacher is saved and committed in the transaction; the
  credential is saved afterwards by \<open>postCredential\<close>, outside it, under the id the
  commit gave the teacher.
\<close>

definition set_prop :: "jsstring \<Rightarrow> jsval \<Rightarrow> (jsstring \<times> jsval) list \<Rightarrow> (jsstring \<times> jsval) list" where
  "set_prop key v kvs =
     (if key \<in> set (map fst kvs) then map (\<lambda>kv. if fst kv = key then (key, v) else kv) kvs
      else kvs @ [(key, v)])"

definition delete_prop :: "jsstring \<Rightarrow> (jsstring \<times> jsval) list \<Rightarrow> (jsstring \<times> jsval) list" where
  "delete_prop key kvs = filter (\<lambda>kv. fst kv \<noteq> key) kvs"

text \<open>\<open>validateImageUrl\<close> on whatever \<open>getImageUrl\<close> found: it answers \<open>false\<close> on a throw.\<close>

definition validateImageUrl :: "checks \<Rightarrow> jsval \<Rightarrow> bool" where
  "validateImageUrl chk imageUrl = (case imageUrl of JString u \<Rightarrow> image_valid chk u | _ \<Rightarrow> False)"

definition postEntity_teacher ::
  "library \<Rightarrow> faults \<Rightarrow> checks \<Rightarrow> nat \<Rightarrow> (jsstring \<times> jsval) list \<Rightarrow> datastore
     \<Rightarrow> ServerResponse \<times> datastore \<times> nat" where
  "postEntity_teacher lib flt chk k entityData db =
     (if \<not> validateProperties entityData teachers_createProperties then
        (new_ServerResponse 400 (ErrorContent INVALID_PROPERTIES), db, k)
      else if get_prop entityData (js ''profile_photo'') \<noteq> JUndefined
              \<and> \<not> validateImageUrl chk (get_prop entityData (js ''profile_photo'')) then
        (new_ServerResponse 400 (ErrorContent INVALID_IMAGE_URL), db, k)
      else
        (let entityData1 = set_prop (js ''profile_photo'') (JString DEFAULT_PROFILE_PHOTO) entityData
         in case (get_prop entityData1 (js ''password''),
                  new_SecretQuestions (get_prop entityData1 (js ''secret_questions''))) of
              (JString pw, Some sq) \<Rightarrow>
                (case new_Credential lib k pw sq of
                   (credentialDataCopy, k1) \<Rightarrow>
                     (let entityData2 =
                            delete_prop (js ''secret_questions'')
                              (delete_prop (js ''password'') entityData1);
                          tx = queue (InsertTeacher entityData2) (begin_transaction db)
                      in if mutation_throws flt (InsertTeacher entityData2) \<or> commit_throws flt
                         then (server_error, db, k1)
                         else
                           (let db1 = commit tx;
                                newId = fresh_id (map fst (teachers db))
                            in if mutation_throws flt (InsertCredential newId credentialDataCopy)
                               then (server_error, db1, k1)
                               else (new_ServerResponse 201 (IdAndSelf newId),
                                     apply_mutation (InsertCredential newId credentialDataCopy) db1,
                                     k1))))
            | _ \<Rightarrow> (server_error, db, k)))"

section \<open>Listing (crud.js)\<close>


section \<open>Cascade deleter (batch-delete.js) and deleting a project or teacher (crud.js)\<close>

text \<open>
  The loop of \<open>deleteObservationsOfProject\<close>: each image is deleted (the answer of
  \<open>deleteImage\<close> is not looked at) and each key collected.
\<close>

fun delete_observation_images ::
  "faults \<Rightarrow> ((nat \<times> nat) \<times> observation) list \<Rightarrow> key list \<Rightarrow> jsstring set
     \<Rightarrow> key list \<times> jsstring set" where
  "delete_observation_images flt [] observationKeys b = (observationKeys, b)"
| "delete_observation_images flt (ob # obs) observationKeys b =
     delete_observation_images flt obs
       (observationKeys @ [ObservationKey (fst (fst ob)) (snd (fst ob))])
       (snd (deleteImage flt (data_image_url (snd ob)) b))"

definition deleteObservationsOfProject ::
  "faults \<Rightarrow> transaction \<Rightarrow> nat \<Rightarrow> jsstring set \<Rightarrow> bool \<times> transaction \<times> jsstring set" where
  "deleteObservationsOfProject flt tx projectKey b =
     (if runQuery_throws flt (ObservationsOfProject projectKey) \<noteq> None then (False, tx, b)
      else
        (case delete_observation_images flt
                (filter (\<lambda>ob. fst (fst ob) = projectKey) (observations (snapshot tx))) [] b of
           (observationKeys, b1) \<Rightarrow>
             if mutation_throws flt (DeleteKeys observationKeys)
             then (False, tx\<lparr>reads := reads tx @ [Queried (ObservationsOfProject projectKey)]\<rparr>, b1)
             else (True,
                   queue (DeleteKeys observationKeys)
                     (tx\<lparr>reads := reads tx @ [Queried (ObservationsOfProject projectKey)]\<rparr>),
                   b1)))"

text \<open>
  The loop of \<open>deleteProjectsOfTeacher\<close>: the answers of \<open>deleteImage\<close> and of
  \<open>deleteObservationsOfProject\<close> are not looked at.
\<close>

fun delete_projects_loop ::
  "faults \<Rightarrow> (nat \<times> project) list \<Rightarrow> key list \<Rightarrow> transaction \<Rightarrow> jsstring set
     \<Rightarrow> key list \<times> transaction \<times> jsstring set" where
  "delete_projects_loop flt [] projectKeys tx b = (projectKeys, tx, b)"
| "delete_projects_loop flt (p # ps) projectKeys tx b =
     (case deleteObservationsOfProject flt tx (fst p)
             (snd (deleteImage flt (description_image_url (snd p)) b)) of
        (succeeded, tx1, b1) \<Rightarrow>
          delete_projects_loop flt ps (projectKeys @ [ProjectKey (fst p)]) tx1 b1)"

definition deleteProjectsOfTeacher ::
  "faults \<Rightarrow> transaction \<Rightarrow> jsstring \<Rightarrow> jsstring set \<Rightarrow> bool \<times> transaction \<times> jsstring set" where
  "deleteProjectsOfTeacher flt tx teacherId b =
     (if runQuery_throws flt (ProjectsOfTeacher teacherId) \<noteq> None then (False, tx, b)
      else
        (case delete_projects_loop flt
                (filter (\<lambda>p. teacher_id (snd p) = teacherId) (projects (snapshot tx))) []
                (tx\<lparr>reads := reads tx @ [Queried (ProjectsOfTeacher teacherId)]\<rparr>) b of
           (projectKeys, tx1, b1) \<Rightarrow>
             if mutation_throws flt (DeleteKeys projectKeys) then (False, tx1, b1)
             else (True, queue (DeleteKeys projectKeys) tx1, b1)))"

text \<open>
  \<open>deleteEntity\<close> on the \<open>projects\<close> collection. The answer of
  \<open>deleteObservationsOfProject\<close> is not looked at.
\<close>

definition deleteEntity_project ::
  "faults \<Rightarrow> checks \<Rightarrow> nat \<Rightarrow> world \<Rightarrow> ServerResponse \<times> world" where
  "deleteEntity_project flt chk entityId w =
     (case get_project flt (begin_transaction (store w)) entityId of
        Inl u \<Rightarrow> (server_error, w)
      | Inr (None, tx1) \<Rightarrow> (new_ServerResponse 404 (ErrorContent ITEM_NOT_FOUND), w)
      | Inr (Some entity, tx1) \<Rightarrow>
          (case auth chk (teacher_id entity) of
             Some responseInfo \<Rightarrow> (responseInfo, w)
           | None \<Rightarrow>
               (let b1 = (if description_image_url entity \<noteq> DEFAULT_PROFILE_PHOTO
                          then snd (deleteImage flt (description_image_url entity) (bucket w))
                          else bucket w)
                in case deleteObservationsOfProject flt tx1 entityId b1 of
                     (succeeded, tx2, b2) \<Rightarrow>
                       if mutation_throws flt (DeleteKeys [ProjectKey entityId])
                          \<or> commit_throws flt
                       then (server_error, w\<lparr>bucket := b2\<rparr>)
                       else (new_ServerResponse 204 NoContent,
                             \<lparr>store = commit (queue (DeleteKeys [ProjectKey entityId]) tx2),
                              bucket = b2\<rparr>))))"

text \<open>
  \<open>deleteEntity\<close> on the \<open>teachers\<close> collection, with \<open>deleteCredential\<close>. The answers
  of \<open>deleteProjectsOfTeacher\<close> and \<open>deleteCredential\<close> are not looked at.
\<close>

definition deleteCredential ::
  "faults \<Rightarrow> transaction \<Rightarrow> jsstring \<Rightarrow> unit + bool \<times> transaction" where
  "deleteCredential flt tx teacherId =
     (case getCredential flt tx teacherId of
        (None, tx1) \<Rightarrow> Inr (False, tx1)
      | (Some (ckey, cdata), tx1) \<Rightarrow>
          if mutation_throws flt (DeleteKeys [CredentialKey (fst ckey) (snd ckey)]) then Inl ()
          else Inr (True, queue (DeleteKeys [CredentialKey (fst ckey) (snd ckey)]) tx1))"

definition deleteEntity_teacher ::
  "faults \<Rightarrow> checks \<Rightarrow> jsstring \<Rightarrow> world \<Rightarrow> ServerResponse \<times> world" where
  "deleteEntity_teacher flt chk entityId w =
     (case key_id entityId of
        None \<Rightarrow> (server_error, w)
      | Some tid \<Rightarrow>
          (case get_teacher flt (begin_transaction (store w)) tid of
             Inl u \<Rightarrow> (server_error, w)
           | Inr (None, tx1) \<Rightarrow> (new_ServerResponse 404 (ErrorContent ITEM_NOT_FOUND), w)
           | Inr (Some entity, tx1) \<Rightarrow>
               (case auth chk entityId of
                  Some responseInfo \<Rightarrow> (responseInfo, w)
                | None \<Rightarrow>
                    (let b1 = (case get_prop entity (js ''profile_photo'') of
                                 JString imageUrl \<Rightarrow>
                                   if imageUrl \<noteq> DEFAULT_PROFILE_PHOTO
                                   then snd (deleteImage flt imageUrl (bucket w))
                                   else bucket w
                               | _ \<Rightarrow> bucket w)
                     in case deleteProjectsOfTeacher flt tx1 entityId b1 of
                          (succeeded, tx2, b2) \<Rightarrow>
                            (case deleteCredential flt tx2 entityId of
                               Inl u \<Rightarrow> (server_error, w\<lparr>bucket := b2\<rparr>)
                             | Inr (deleted, tx3) \<Rightarrow>
                                 if mutation_throws flt (DeleteKeys [TeacherKey tid])
                                    \<or> commit_throws flt
                                 then (server_error, w\<lparr>bucket := b2\<rparr>)
                                 else (new_ServerResponse 204 NoContent,
                                       \<lparr>store = commit (queue (DeleteKeys [TeacherKey tid]) tx3),
                                        bucket = b2\<rparr>))))))"

section \<open>Vocabulary for the aggregate invariant\<close>










section \<open>Sample data\<close>

definition all_pass :: checks where
  "all_pass = \<lparr>auth = (\<lambda>t. None), image_valid = (\<lambda>u. True)\<rparr>"

definition sample_project :: "int \<Rightarrow> bool \<Rightarrow> project" where
  "sample_project n u =
     \<lparr>teacher_id = js ''7'',
      data_number = \<lparr>dn_name = js ''Birds'', number = n, must_be_unique = u\<rparr>,
      description_image_url = js ''https://storage.googleapis.com/kidizen-science-images/p.png''\<rparr>"

definition sample_observation :: "string \<Rightarrow> int \<Rightarrow> observation" where
  "sample_observation d q =
     \<lparr>obs_data_number = \<lparr>quantity = q, description = js d\<rparr>,
      data_image_url = js ''https://storage.googleapis.com/kidizen-science-images/o.png''\<rparr>"

definition sample_world :: "int \<Rightarrow> bool \<Rightarrow> world" where
  "sample_world n u =
     \<lparr>store = \<lparr>teachers = [], projects = [(1, sample_project n u)], observations = [],
               credentials = []\<rparr>,
      bucket = {}\<rparr>"


text \<open>
  A header that \<open>validateAuthHeader\<close> parses: present, not empty, \<open>Basic\<close> before its
  first space, and after it the encoding of an id and a secret with one colon between.
\<close>

definition basic_header :: "library \<Rightarrow> jsstring option \<Rightarrow> jsstring \<Rightarrow> jsstring \<Rightarrow> bool" where
  "basic_header lib authReceived teacherIdReceived passwordReceived \<longleftrightarrow>
     (case authReceived of
        None \<Rightarrow> False
      | Some header \<Rightarrow>
          header \<noteq> [] \<and>
          (case indexOf header 0x20 of
             None \<Rightarrow> False
           | Some spaceIndex \<Rightarrow>
               0 < spaceIndex \<and> take spaceIndex header = js ''Basic'' \<and>
               split (base64_to_utf8 lib (drop (spaceIndex + 1) header)) 0x3A
                 = [teacherIdReceived, passwordReceived]))"

definition reset_rejected :: ServerResponse where
  "reset_rejected = new_ServerResponse 401
     (ErrorContent ''The reset code provided is incorrect and/or expired.'')"

definition sample_questions :: secret_questions where
  "sample_questions =
     \<lparr>question_1 = js ''Pet?'', question_2 = js ''City?'',
      answer_1 = js ''Rex'', answer_2 = js ''Oslo''\<rparr>"

definition sample_body :: "(jsstring \<times> jsval) list" where
  "sample_body =
     [(js ''password'', JString (js ''Manhattan01'')),
      (js ''secret_questions'',
       JObject [(js ''question_1'', JString (js ''Pet?'')),
                (js ''question_2'', JString (js ''City?'')),
                (js ''answer_1'', JString (js ''Rex'')),
                (js ''answer_2'', JString (js ''Oslo''))])]"

definition sample_teacher_store :: datastore where
  "sample_teacher_store =
     \<lparr>teachers = [(7, [(js ''name'', JString (js ''Ada''))])],
      projects = [], observations = [],
      credentials =
        [((7, 1), fst (new_Credential sample_library 0 (js ''Relativity1'') sample_questions))]\<rparr>"

definition sample_challenged_store :: datastore where
  "sample_challenged_store =
     fst (snd (getCredentialResetChallenge sample_library no_faults 1000 (js ''code-1'') 7
                 (js ''7'') sample_teacher_store))"

text \<open>An ASCII letter (A-Z, a-z) or digit (0-9), as a code unit.\<close>

definition ascii_letter_or_digit :: "16 word \<Rightarrow> bool" where
  "ascii_letter_or_digit u =
     ((0x41 \<le> u \<and> u \<le> 0x5A) \<or> (0x61 \<le> u \<and> u \<le> 0x7A) \<or> (0x30 \<le> u \<and> u \<le> 0x39))"






definition image_delete_fails :: faults where
  "image_delete_fails = no_faults\<lparr>file_delete_throws := (\<lambda>f. f = js ''o.png'')\<rparr>"

definition observation_query_fails :: faults where
  "observation_query_fails =
     no_faults\<lparr>runQuery_throws := (\<lambda>q. case q of ObservationsOfProject p \<Rightarrow> Some 14 | _ \<Rightarrow> None)\<rparr>"

definition project_with_observation :: world where
  "project_with_observation =
     \<lparr>store = \<lparr>teachers = [], projects = [(1, sample_project 1 False)],
               observations = [((1, 1), sample_observation ''Goldfinch'' 1)],
               credentials = []\<rparr>,
      bucket = {js ''p.png'', js ''o.png''}\<rparr>"

section \<open>Schema validation\<close>

lemma check_expected_None:
  "check_expected d ps n = None \<longleftrightarrow>
     (\<exists>p \<in> set ps. (prop_required p \<and> prop_name p \<notin> fst ` set d)
        \<or> (prop_name p \<in> fst ` set d \<and> \<not> prop_validator p (get_prop d (prop_name p))))"
  by (induction ps arbitrary: n) (auto simp: Let_def)

lemma check_expected_Some:
  "check_expected d ps n = Some m \<Longrightarrow>
     m = n + length (filter (\<lambda>p. prop_name p \<in> fst ` set d) ps)"
proof (induction ps arbitrary: n)
  case Nil
  then show ?case by simp
next
  case (Cons p ps)
  show ?case
  proof (cases "prop_name p \<in> fst ` set d")
    case True
    with Cons.prems have "check_expected d ps (n + 1) = Some m"
      by (simp add: Let_def split: if_splits)
    from Cons.IH [OF this] True show ?thesis by simp
  next
    case False
    with Cons.prems have "check_expected d ps n = Some m"
      by (simp add: Let_def split: if_splits)
    from Cons.IH [OF this] False show ?thesis by simp
  qed
qed

lemma check_extra_iff:
  "check_extra ps ks \<longleftrightarrow> (\<forall>k \<in> set ks. k \<in> prop_name ` set ps)"
  by (induction ks) (auto simp: filter_empty_conv)

lemma filter_present_empty:
  "length (filter (\<lambda>p. prop_name p \<in> K) ps) < 1 \<longleftrightarrow> (\<forall>p \<in> set ps. prop_name p \<notin> K)"
  by (induction ps) auto

text \<open>
  C7. Schema validation fails exactly when a required property of the set is absent, or
  a property of the set that is present fails its validator, or no property of the set
  is present, or the data has a property that is not in the set; otherwise it passes.
\<close>

theorem validateProperties_fails_iff:
  "validateProperties entityData expectedProperties = False \<longleftrightarrow>
     (\<exists>p \<in> set expectedProperties.
         prop_required p \<and> prop_name p \<notin> fst ` set entityData)
   \<or> (\<exists>p \<in> set expectedProperties.
         prop_name p \<in> fst ` set entityData
         \<and> \<not> prop_validator p (get_prop entityData (prop_name p)))
   \<or> (\<forall>p \<in> set expectedProperties. prop_name p \<notin> fst ` set entityData)
   \<or> (\<exists>k \<in> fst ` set entityData. k \<notin> prop_name ` set expectedProperties)"
proof (cases "check_expected entityData expectedProperties 0")
  case None
  then show ?thesis
    unfolding validateProperties_def using check_expected_None [of entityData expectedProperties 0]
    by auto
next
  case (Some m)
  have no_early: "\<not> (\<exists>p \<in> set expectedProperties.
        (prop_required p \<and> prop_name p \<notin> fst ` set entityData)
        \<or> (prop_name p \<in> fst ` set entityData
            \<and> \<not> prop_validator p (get_prop entityData (prop_name p))))"
    using Some check_expected_None [of entityData expectedProperties 0] by simp
  have m: "m = length (filter (\<lambda>p. prop_name p \<in> fst ` set entityData) expectedProperties)"
    using check_expected_Some [OF Some] by simp
  have "validateProperties entityData expectedProperties = False \<longleftrightarrow>
          m < 1 \<or> \<not> check_extra expectedProperties (map fst entityData)"
    unfolding validateProperties_def using Some by simp
  also have "\<dots> \<longleftrightarrow>
       (\<forall>p \<in> set expectedProperties. prop_name p \<notin> fst ` set entityData)
     \<or> (\<exists>k \<in> fst ` set entityData. k \<notin> prop_name ` set expectedProperties)"
    unfolding m filter_present_empty check_extra_iff by auto
  finally show ?thesis using no_early by blast
qed

theorem validateProperties_fails_iff_witness:
  "validateProperties [(js ''name'', JNull)] [new_Property ''name'' VALIDATE_STRING True] = False
   \<and> validateProperties [(js ''name'', JString (js ''Ada''))]
         [new_Property ''name'' VALIDATE_STRING True] = True"
proof
  show "validateProperties [(js ''name'', JNull)] [new_Property ''name'' VALIDATE_STRING True] = False"
    using validateProperties_fails_iff
      [of "[(js ''name'', JNull)]" "[new_Property ''name'' VALIDATE_STRING True]"]
    by (simp add: new_Property_def get_prop_def VALIDATE_STRING_def)
  show "validateProperties [(js ''name'', JString (js ''Ada''))]
         [new_Property ''name'' VALIDATE_STRING True] = True"
    using validateProperties_fails_iff
      [of "[(js ''name'', JString (js ''Ada''))]" "[new_Property ''name'' VALIDATE_STRING True]"]
    by (simp add: new_Property_def get_prop_def VALIDATE_STRING_def js_def)
qed

section \<open>The counter and the observations\<close>



lemma map_of_table_del: "map_of (table_del P t) k = (if P k then None else map_of t k)"
  by (induction t) (auto simp: table_del_def)

lemma distinct_filter_keys: "distinct (map fst t) \<Longrightarrow> distinct (map fst (filter Q t))"
  by (induction t) auto

lemma distinct_table_del: "distinct (map fst t) \<Longrightarrow> distinct (map fst (table_del P t))"
  by (simp add: table_del_def distinct_filter_keys)






lemma getOtherODNDescriptions_None:
  "getOtherODNDescriptions flt tx pid ex = (None, tx') \<Longrightarrow> tx' = tx"
  by (auto simp: getOtherODNDescriptions_def split: if_splits)








































lemmas run_eval =
  run.simps handle.simps postEntity_observation_def updateEntity_observation_def
  deleteEntity_observation_def all_pass_def no_faults_def sample_world_def sample_project_def
  sample_observation_def getAncestorData_def get_project_def get_observation_def
  getTeacherOfProject_def begin_transaction_def queue_def commit_def
  processPostedObservation_def processUpdatedObservation_def processDeletedObservation_def
  getOtherODNDescriptions_def saveUpdatedProject_def addObservation_def deleteObservation_def
  deepEquals_def new_ServerResponse_def table_put_def table_del_def fresh_id_def Let_def
  update_image_def apply_patch_def deleteImage_def




text \<open>
  The scenario of the specification: a project counting unique descriptions, created with
  0. Goldfinch (1), Goldfinch again (3), delete the first: the counter is 1. Delete the
  second as well: the store is as it began.
\<close>

lemma goldfinch_scenario:
  "projects (store (run
     [(no_faults, all_pass, PostObservation 1 (sample_observation ''Goldfinch'' 1)),
      (no_faults, all_pass, PostObservation 1 (sample_observation ''Goldfinch'' 3)),
      (no_faults, all_pass, DeleteObservation 1 1)]
     (sample_world 0 True))) = [(1, sample_project 1 True)]"
  "store (run
     [(no_faults, all_pass, PostObservation 1 (sample_observation ''Goldfinch'' 1)),
      (no_faults, all_pass, PostObservation 1 (sample_observation ''Goldfinch'' 3)),
      (no_faults, all_pass, DeleteObservation 1 1),
      (no_faults, all_pass, DeleteObservation 1 2)]
     (sample_world 0 True)) = store (sample_world 0 True)"
  by (simp_all add: run_eval js_def)

section \<open>The maintainer on an update\<close>







section \<open>Credentials: verification, ownership, reset codes\<close>


lemma validateAuthHeader_parsed:
  assumes "basic_header lib authReceived idr pw"
  shows "validateAuthHeader lib flt now k tx authReceived teacherIdExpected credentialExpected
       useResetCode =
     (if teacherIdExpected \<noteq> None \<and> Some idr \<noteq> teacherIdExpected then
        (Some (new_ServerResponse 403
           (ErrorContent ''The teacher whose authorization credentials were provided does not own this resource.'')),
         credentialExpected, k, tx)
      else
        (case (case credentialExpected of
                 None \<Rightarrow> getCredential flt tx idr
               | Some c \<Rightarrow> (Some c, tx)) of
           (None, tx1) \<Rightarrow>
             (Some (new_ServerResponse 404 (ErrorContent CREDENTIAL_NOT_FOUND)), None, k, tx1)
         | (Some (ckey, cdata), tx1) \<Rightarrow>
             if useResetCode then
               (case resetCodeValid lib k now (JString pw) cdata of
                  (valid, cdata1, k1) \<Rightarrow>
                    if \<not> valid then
                      (Some (new_ServerResponse 401
                         (ErrorContent ''The reset code provided is incorrect and/or expired.'')),
                       Some (ckey, cdata1), k1, tx1)
                    else (None, Some (ckey, cdata1), k1, tx1))
             else
               (case passwordsMatch lib k (JString pw) cdata of
                  (matches, cdata1, k1) \<Rightarrow>
                    if \<not> matches then
                      (Some (new_ServerResponse 401
                         (ErrorContent ''The password provided is incorrect.'')),
                       Some (ckey, cdata1), k1, tx1)
                    else (None, Some (ckey, cdata1), k1, tx1))))"
proof -
  from assms obtain header i where h: "authReceived = Some header" "header \<noteq> []"
      "indexOf header 0x20 = Some i" "0 < i" "take i header = js ''Basic''"
      "split (base64_to_utf8 lib (drop (i + 1) header)) 0x3A = [idr, pw]"
    by (auto simp: basic_header_def split: option.splits)
  show ?thesis
    unfolding validateAuthHeader_def h(1) using h(2-6) by simp
qed

text \<open>
  C4. For a header that parses, given an expected owner id other than the header's id,
  the answer is 403 whatever the secret in the header, whatever credential is on file
  and whichever of password and reset code was to be checked; no credential is fetched
  or decrypted and nothing is encrypted: the credential object, the count of
  encryptions and the transaction come back as they were.
\<close>

theorem other_owner_is_forbidden:
  assumes "basic_header lib authReceived teacherIdReceived passwordReceived"
    and "teacherIdReceived \<noteq> teacherIdExpected"
  shows "validateAuthHeader lib flt now k tx authReceived (Some teacherIdExpected)
           credentialExpected useResetCode
         = (Some (new_ServerResponse 403
              (ErrorContent ''The teacher whose authorization credentials were provided does not own this resource.'')),
            credentialExpected, k, tx)"
  using assms(2) by (simp add: validateAuthHeader_parsed [OF assms(1)])

lemma digit_cases: "d < 10 \<Longrightarrow> d \<in> {0, 1, 2, 3, 4, 5, 6, 7, 8, 9::nat}"
  by auto

lemma digit_char_props:
  assumes "d < 10"
  shows "is_digit (digit_char d)" "\<not> is_whitespace (digit_char d)"
        "digit_char d \<noteq> 0x2D" "digit_char d \<noteq> 0x2B" "unat (digit_char d) - 48 = d"
  using digit_cases [OF assms]
  by (auto simp: is_digit_def is_whitespace_def digit_char_def)

lemma toString10_digits: "\<forall>u \<in> set (toString10 n). is_digit u"
proof (induction n rule: toString10.induct)
  case (1 n)
  show ?case
  proof (cases "n < 10")
    case True
    then show ?thesis by (subst toString10.simps) (simp add: digit_char_props)
  next
    case False
    with 1 show ?thesis by (subst toString10.simps) (simp add: digit_char_props)
  qed
qed

lemma toString10_not_Nil: "toString10 n \<noteq> []"
  by (subst toString10.simps) simp

lemma toString10_hd: "\<exists>d us. d < 10 \<and> toString10 n = digit_char d # us"
proof (induction n rule: toString10.induct)
  case (1 n)
  show ?case
  proof (cases "n < 10")
    case True
    then show ?thesis by (subst toString10.simps) auto
  next
    case False
    with 1 obtain d us where "d < 10" "toString10 (n div 10) = digit_char d # us" by blast
    with False show ?thesis by (subst toString10.simps) auto
  qed
qed

lemma digits_value_snoc: "digits_value (ds @ [u]) = digits_value ds * 10 + (unat u - 48)"
  by (simp add: digits_value_def)

lemma digits_value_toString10: "digits_value (toString10 n) = n"
proof (induction n rule: toString10.induct)
  case (1 n)
  show ?case
  proof (cases "n < 10")
    case True
    then show ?thesis
      by (subst toString10.simps) (simp add: digits_value_def digit_char_props)
  next
    case False
    with 1 have "digits_value (toString10 (n div 10)) = n div 10" by simp
    with False show ?thesis
      by (subst toString10.simps) (simp add: digits_value_snoc digit_char_props)
  qed
qed

lemma parseInt_toString10: "parseInt (toString10 n) = Some (int n)"
proof -
  obtain d us where d: "d < 10" "toString10 n = digit_char d # us"
    using toString10_hd by blast
  have dw: "dropWhile is_whitespace (toString10 n) = toString10 n"
    unfolding d(2) using digit_char_props(2) [OF d(1)] by simp
  have tw: "takeWhile is_digit (toString10 n) = toString10 n"
    using toString10_digits by (simp add: takeWhile_eq_all_conv)
  have sg: "(case toString10 n of [] \<Rightarrow> (1::int) | u # us \<Rightarrow> if u = 0x2D then - 1 else 1) = 1"
    unfolding d(2) using digit_char_props(3) [OF d(1)] by simp
  have r: "(case toString10 n of [] \<Rightarrow> [] | u # us \<Rightarrow> if u = 0x2D \<or> u = 0x2B then us else toString10 n)
            = toString10 n"
    unfolding d(2) using digit_char_props(3,4) [OF d(1)] by simp
  show ?thesis
    unfolding parseInt_def dw Let_def sg r tw
    using toString10_not_Nil [of n] by (simp add: digits_value_toString10)
qed

lemma parseInt_Nil: "parseInt [] = None"
  by (simp add: parseInt_def)

lemma teacherExists_id_True:
  assumes "key_id teacherId = Some t" "\<not> get_throws flt (TeacherKey t)"
    "map_of (teachers (snapshot tx)) t \<noteq> None"
  shows "teacherExists_id flt tx teacherId = (True, tx\<lparr>reads := reads tx @ [Got (TeacherKey t)]\<rparr>)"
  using assms by (simp add: teacherExists_id_def teacherExists_def get_teacher_def)

lemma getCredential_found:
  assumes "key_id teacherId = Some t" "runQuery_throws flt (CredentialsOfTeacher t) = None"
    "filter (\<lambda>c. fst (fst c) = t) (credentials (snapshot tx)) = [(ckey, c)]"
  shows "getCredential flt tx teacherId
           = (Some (ckey, c), tx\<lparr>reads := reads tx @ [Queried (CredentialsOfTeacher t)]\<rparr>)"
  using assms by (simp add: getCredential_def)

lemma attempt_rejected:
  assumes body: "validateProperties requestBody credential_createProperties"
    and tid: "key_id teacherId = Some t"
    and ng: "\<not> get_throws flt (TeacherKey t)"
    and nq: "runQuery_throws flt (CredentialsOfTeacher t) = None"
    and teacher: "map_of (teachers db) t \<noteq> None"
    and cred: "filter (\<lambda>c. fst (fst c) = t) (credentials db) = [(ckey, c)]"
    and hdr: "basic_header lib authReceived teacherId pw"
    and dead: "\<not> isUnexpired now (reset_code (decryptResetCode lib c))"
  shows "resetUnknownPassword lib flt now k requestBody teacherId authReceived db
           = (reset_rejected, db, k + 2)"
proof -
  let ?tx0 = "begin_transaction db"
  let ?tx1 = "?tx0\<lparr>reads := reads ?tx0 @ [Got (TeacherKey t)]\<rparr>"
  let ?tx2 = "?tx1\<lparr>reads := reads ?tx1 @ [Queried (CredentialsOfTeacher t)]\<rparr>"
  have te: "teacherExists_id flt ?tx0 teacherId = (True, ?tx1)"
    using teacher by (intro teacherExists_id_True [OF tid ng]) (simp add: begin_transaction_def)
  have gc: "getCredential flt ?tx1 teacherId = (Some (ckey, c), ?tx2)"
    using cred by (intro getCredential_found [OF tid nq]) (simp add: begin_transaction_def)
  have rv: "resetCodeValid lib k now (JString pw) c
              = (False, fst (encryptResetCode lib k (decryptResetCode lib c)), k + 2)"
    using dead by (simp add: resetCodeValid_def Let_def encryptResetCode_def)
  have va: "validateAuthHeader lib flt now k tx authReceived (Some teacherId)
              (Some (ckey, c)) True
            = (Some reset_rejected,
               Some (ckey, fst (encryptResetCode lib k (decryptResetCode lib c))), k + 2, tx)"
    for tx
    by (simp add: validateAuthHeader_parsed [OF hdr] rv reset_rejected_def)
  show ?thesis
    unfolding resetUnknownPassword_def using body by (simp add: te gc va)
qed

lemma filter_table_put_single:
  assumes "filter (\<lambda>c. fst (fst c) = t) cs = [(ckey, c)]"
  shows "filter (\<lambda>c. fst (fst c) = t) (table_put ckey c' cs) = [(ckey, c')]"
proof -
  have "(ckey, c) \<in> set (filter (\<lambda>c. fst (fst c) = t) cs)"
    unfolding assms by simp
  then have t: "fst ckey = t" by simp
  have "filter (\<lambda>c. fst (fst c) = t) (filter (\<lambda>kv. fst kv \<noteq> ckey) cs)
        = filter (\<lambda>kv. fst kv \<noteq> ckey) (filter (\<lambda>c. fst (fst c) = t) cs)"
    by (simp add: conj_commute)
  also have "\<dots> = []" unfolding assms by simp
  finally show ?thesis using t by (simp add: table_put_def)
qed

lemma commit_saved_credential:
  assumes "mutations tx = []"
  shows "teachers (commit (queue (SaveCredential a b c') tx)) = teachers (snapshot tx)"
    and "credentials (commit (queue (SaveCredential a b c') tx))
           = table_put (a, b) c' (credentials (snapshot tx))"
  using assms by (simp_all add: commit_def queue_def)

lemma teacherExists_id_tx:
  "teacherExists_id flt tx teacherId = (b, tx1) \<Longrightarrow>
     snapshot tx1 = snapshot tx \<and> mutations tx1 = mutations tx"
  by (auto simp: teacherExists_id_def teacherExists_def get_teacher_def
        split: option.splits if_splits)

lemma getCredential_tx:
  "getCredential flt tx teacherId = (oc, tx1) \<Longrightarrow>
     snapshot tx1 = snapshot tx \<and> mutations tx1 = mutations tx"
  by (auto simp: getCredential_def split: option.splits if_splits)

lemma getCredential_Some:
  assumes "getCredential flt tx teacherId = (Some x, tx1)" "key_id teacherId = Some t"
    "filter (\<lambda>c. fst (fst c) = t) (credentials (snapshot tx)) = [(ckey, c)]"
  shows "x = (ckey, c)"
  using assms by (auto simp: getCredential_def split: if_splits)

lemma challenge_issued:
  assumes rt: "\<forall>k s. decryptString lib (encryptString lib k s) = s"
    and tid: "key_id teacherId = Some t"
    and cred: "filter (\<lambda>c. fst (fst c) = t) (credentials db) = [(ckey, c)]"
    and run: "getCredentialResetChallenge lib flt t0 uuid k teacherId db = (r, db1, k1)"
    and ok: "status r = 200"
  shows "teachers db1 = teachers db \<and>
         (\<exists>c1. filter (\<lambda>c. fst (fst c) = t) (credentials db1) = [(ckey, c1)] \<and>
               reset_code (decryptResetCode lib c1)
                 = \<lparr>code = uuid, expires = toString10 (t0 + RESET_CODE_LIFETIME)\<rparr>)"
proof -
  obtain oc tx1 where gc: "getCredential flt (begin_transaction db) teacherId = (oc, tx1)"
    by (cases "getCredential flt (begin_transaction db) teacherId")
  note T = getCredential_tx [OF gc]
  from run ok gc obtain x where oc: "oc = Some x"
    by (cases oc) (auto simp: getCredentialResetChallenge_def new_ServerResponse_def)
  have x: "x = (ckey, c)"
    using getCredential_Some [OF gc [unfolded oc] tid] cred by (simp add: begin_transaction_def)
  obtain ch c1 k2 where g: "generateResetCodeChallenge lib k t0 uuid c = (ch, c1, k2)"
    by (cases "generateResetCodeChallenge lib k t0 uuid c") auto
  have rc: "reset_code (decryptResetCode lib c1)
                 = \<lparr>code = uuid, expires = toString10 (t0 + RESET_CODE_LIFETIME)\<rparr>"
    using g rt
    by (auto simp: generateResetCodeChallenge_def Let_def encryptSecretQuestions_def
          encryptResetCode_def decryptResetCode_def refreshCode_def)
  from run ok gc oc x g have db1: "db1 = commit (queue (SaveCredential (fst ckey) (snd ckey) c1) tx1)"
    by (auto simp: getCredentialResetChallenge_def new_ServerResponse_def server_error_def
          split: if_splits)
  have m: "mutations tx1 = []" and s: "snapshot tx1 = db"
    using T by (simp_all add: begin_transaction_def)
  have "teachers db1 = teachers db"
    unfolding db1 using commit_saved_credential(1) [OF m] s by simp
  moreover have "filter (\<lambda>c. fst (fst c) = t) (credentials db1) = [(ckey, c1)]"
    unfolding db1 using commit_saved_credential(2) [OF m] s filter_table_put_single [OF cred]
    by simp
  ultimately show ?thesis using rc by blast
qed

lemma reset_done:
  assumes rt: "\<forall>k s. decryptString lib (encryptString lib k s) = s"
    and tid: "key_id teacherId = Some t"
    and cred: "filter (\<lambda>c. fst (fst c) = t) (credentials db) = [(ckey, c)]"
    and hdr: "basic_header lib authReceived teacherId pw"
    and run: "resetUnknownPassword lib flt now k requestBody teacherId authReceived db = (r, db', k')"
    and ok: "status r = 204"
  shows "teachers db' = teachers db \<and>
         (\<exists>c'. filter (\<lambda>c. fst (fst c) = t) (credentials db') = [(ckey, c')] \<and>
               reset_code (decryptResetCode lib c') = \<lparr>code = [], expires = []\<rparr>)"
proof -
  have body: "validateProperties requestBody credential_createProperties"
    using run ok by (auto simp: resetUnknownPassword_def new_ServerResponse_def split: if_splits)
  obtain b tx1 where te: "teacherExists_id flt (begin_transaction db) teacherId = (b, tx1)"
    by (cases "teacherExists_id flt (begin_transaction db) teacherId")
  note T1 = teacherExists_id_tx [OF te]
  from run ok body te have b: "b"
    by (cases b) (auto simp: resetUnknownPassword_def new_ServerResponse_def)
  obtain oc tx2 where gc: "getCredential flt tx1 teacherId = (oc, tx2)"
    by (cases "getCredential flt tx1 teacherId")
  note T2 = getCredential_tx [OF gc]
  from run ok body te b gc obtain x where oc: "oc = Some x"
    by (cases oc) (auto simp: resetUnknownPassword_def new_ServerResponse_def)
  have x: "x = (ckey, c)"
    using getCredential_Some [OF gc [unfolded oc] tid] cred T1 by (simp add: begin_transaction_def)
  obtain v c1 k1 where rv: "resetCodeValid lib k now (JString pw) c = (v, c1, k1)"
    by (cases "resetCodeValid lib k now (JString pw) c") auto
  obtain q c2 k2 where sq: "secretQuestionsMatch lib k1
        (get_prop requestBody (js ''secret_questions'')) c1 = (q, c2, k2)"
    by (cases "secretQuestionsMatch lib k1 (get_prop requestBody (js ''secret_questions'')) c1") auto
  obtain sp c3 k3 where pm: "passwordsMatch lib k2 (get_prop requestBody (js ''password'')) c2
        = (sp, c3, k3)"
    by (cases "passwordsMatch lib k2 (get_prop requestBody (js ''password'')) c2") auto
  from run ok body te b gc oc x rv have v: "v"
    by (cases v) (auto simp: resetUnknownPassword_def new_ServerResponse_def
                    validateAuthHeader_parsed [OF hdr])
  from run ok body te b gc oc x rv v sq have q: "q"
    by (cases q) (auto simp: resetUnknownPassword_def new_ServerResponse_def
                    validateAuthHeader_parsed [OF hdr])
  from run ok body te b gc oc x rv v sq q pm have sp: "\<not> sp"
    by (cases sp) (auto simp: resetUnknownPassword_def new_ServerResponse_def
                    validateAuthHeader_parsed [OF hdr])
  from run ok body te b gc oc x rv v sq q pm sp obtain np where
    np: "get_prop requestBody (js ''password'') = JString np"
    by (cases "get_prop requestBody (js ''password'')")
       (auto simp: resetUnknownPassword_def new_ServerResponse_def server_error_def
          validateAuthHeader_parsed [OF hdr])
  obtain c4 k4 where up: "updatePassword lib k3 np c3 = (c4, k4)"
    by (cases "updatePassword lib k3 np c3")
  obtain c5 k5 where cl: "clearResetCode lib k4 c4 = (c5, k5)"
    by (cases "clearResetCode lib k4 c4")
  from run ok body te b gc oc x rv v sq q pm sp np up cl
  have db': "db' = commit (queue (SaveCredential (fst ckey) (snd ckey) c5) tx2)"
    by (auto simp: resetUnknownPassword_def new_ServerResponse_def server_error_def
          validateAuthHeader_parsed [OF hdr] split: if_splits)
  have rc: "reset_code (decryptResetCode lib c5) = \<lparr>code = [], expires = []\<rparr>"
    using cl rt by (auto simp: clearResetCode_def encryptResetCode_def decryptResetCode_def
          clearCode_def)
  have m: "mutations tx2 = []" and s: "snapshot tx2 = db"
    using T1 T2 by (simp_all add: begin_transaction_def)
  have "teachers db' = teachers db"
    unfolding db' using commit_saved_credential(1) [OF m] s by simp
  moreover have "filter (\<lambda>c. fst (fst c) = t) (credentials db') = [(ckey, c5)]"
    unfolding db' using commit_saved_credential(2) [OF m] s filter_table_put_single [OF cred]
    by simp
  ultimately show ?thesis using rc by blast
qed

text \<open>
  C5. Take a teacher with one credential on file and a reset request that parses: valid
  body, header carrying the teacher's id and a reset code, lookups that do not throw.
  After a reset that succeeded (204), such a request is answered 401 whatever code it
  presents and whenever it comes, the stored reset code having been cleared. After a
  reset challenge issued at time \<open>t0\<close>, such a request made at
  \<open>t0 + RESET_CODE_LIFETIME\<close> (30 minutes) or later is answered 401. Decryption is
  taken to invert encryption.
\<close>

theorem reset_code_single_use_and_expiring:
  assumes rt: "\<forall>k s. decryptString lib (encryptString lib k s) = s"
    and tid: "key_id teacherId = Some t"
    and teacher: "map_of (teachers db) t \<noteq> None"
    and cred: "filter (\<lambda>c. fst (fst c) = t) (credentials db) = [(ckey, c)]"
    and hdr: "basic_header lib authReceived teacherId resetCode"
    and body: "validateProperties requestBody credential_createProperties"
    and ng: "\<not> get_throws flt (TeacherKey t)"
    and nq: "runQuery_throws flt (CredentialsOfTeacher t) = None"
  shows
    "(status (fst (resetUnknownPassword lib flt1 now1 k1 requestBody1 teacherId authReceived db))
        = 204 \<longrightarrow>
      resetUnknownPassword lib flt now k requestBody teacherId authReceived
          (fst (snd (resetUnknownPassword lib flt1 now1 k1 requestBody1 teacherId authReceived db)))
        = (new_ServerResponse 401
             (ErrorContent ''The reset code provided is incorrect and/or expired.''),
           fst (snd (resetUnknownPassword lib flt1 now1 k1 requestBody1 teacherId authReceived db)),
           k + 2))
   \<and> (status (fst (getCredentialResetChallenge lib flt0 t0 uuid k0 teacherId db)) = 200
        \<and> t0 + RESET_CODE_LIFETIME \<le> now \<longrightarrow>
      resetUnknownPassword lib flt now k requestBody teacherId authReceived
          (fst (snd (getCredentialResetChallenge lib flt0 t0 uuid k0 teacherId db)))
        = (new_ServerResponse 401
             (ErrorContent ''The reset code provided is incorrect and/or expired.''),
           fst (snd (getCredentialResetChallenge lib flt0 t0 uuid k0 teacherId db)),
           k + 2))"
proof (intro conjI impI)
  assume ok: "status (fst (resetUnknownPassword lib flt1 now1 k1 requestBody1 teacherId authReceived db)) = 204"
  obtain r db' k' where run:
    "resetUnknownPassword lib flt1 now1 k1 requestBody1 teacherId authReceived db = (r, db', k')"
    by (cases "resetUnknownPassword lib flt1 now1 k1 requestBody1 teacherId authReceived db") auto
  from reset_done [OF rt tid cred hdr run] ok run obtain c' where
    t': "teachers db' = teachers db" and
    c': "filter (\<lambda>c. fst (fst c) = t) (credentials db') = [(ckey, c')]" and
    rc: "reset_code (decryptResetCode lib c') = \<lparr>code = [], expires = []\<rparr>"
    by auto
  have dead: "\<not> isUnexpired now (reset_code (decryptResetCode lib c'))"
    unfolding rc by (simp add: isUnexpired_def parseInt_Nil)
  from attempt_rejected [OF body tid ng nq _ c' hdr dead, of k] teacher t' run
  show "resetUnknownPassword lib flt now k requestBody teacherId authReceived
          (fst (snd (resetUnknownPassword lib flt1 now1 k1 requestBody1 teacherId authReceived db)))
        = (new_ServerResponse 401
             (ErrorContent ''The reset code provided is incorrect and/or expired.''),
           fst (snd (resetUnknownPassword lib flt1 now1 k1 requestBody1 teacherId authReceived db)),
           k + 2)"
    by (simp add: reset_rejected_def)
next
  assume a: "status (fst (getCredentialResetChallenge lib flt0 t0 uuid k0 teacherId db)) = 200
        \<and> t0 + RESET_CODE_LIFETIME \<le> now"
  obtain r db1 k' where run:
    "getCredentialResetChallenge lib flt0 t0 uuid k0 teacherId db = (r, db1, k')"
    by (cases "getCredentialResetChallenge lib flt0 t0 uuid k0 teacherId db") auto
  from challenge_issued [OF rt tid cred run] a run obtain c1 where
    t': "teachers db1 = teachers db" and
    c1: "filter (\<lambda>c. fst (fst c) = t) (credentials db1) = [(ckey, c1)]" and
    rc: "reset_code (decryptResetCode lib c1)
           = \<lparr>code = uuid, expires = toString10 (t0 + RESET_CODE_LIFETIME)\<rparr>"
    by auto
  have dead: "\<not> isUnexpired now (reset_code (decryptResetCode lib c1))"
    unfolding rc using a by (simp add: isUnexpired_def parseInt_toString10)
  from attempt_rejected [OF body tid ng nq _ c1 hdr dead, of k] teacher t' run
  show "resetUnknownPassword lib flt now k requestBody teacherId authReceived
          (fst (snd (getCredentialResetChallenge lib flt0 t0 uuid k0 teacherId db)))
        = (new_ServerResponse 401
             (ErrorContent ''The reset code provided is incorrect and/or expired.''),
           fst (snd (getCredentialResetChallenge lib flt0 t0 uuid k0 teacherId db)),
           k + 2)"
    by (simp add: reset_rejected_def)
qed

lemma key_id_seven: "key_id (js ''7'') = Some 7"
  by (simp add: key_id_def parseInt_def js_def is_whitespace_def is_digit_def digits_value_def Let_def)

lemma sample_library_round_trip: "\<forall>k s. decryptString sample_library (encryptString sample_library k s) = s"
  by (simp add: sample_library_def)

lemma sample_header_parses:
  "basic_header sample_library (Some (js ''Basic 7:code-1'')) (js ''7'') (js ''code-1'')"
  by (simp add: basic_header_def sample_library_def js_def indexOf_def split_def)

lemma sample_body_valid: "validateProperties sample_body credential_createProperties"
  by (simp add: validateProperties_def sample_body_def credential_createProperties_def
        new_Property_def get_prop_def VALIDATE_PASSWORD_def VALIDATE_SECRET_QUESTIONS_def
        VALIDATE_EMBEDDED_OBJECT_def VALIDATE_STRING_def password_char_ok_def
        is_high_surrogate_def is_low_surrogate_def js_def)

lemma challenged_store:
  "sample_challenged_store =
     \<lparr>teachers = [(7, [(js ''name'', JString (js ''Ada''))])],
      projects = [], observations = [],
      credentials =
        [((7, 1),
          \<lparr>password = 0 # js ''Relativity1'',
           secret_questions = \<lparr>question_1 = 7 # js ''Pet?'', question_2 = 8 # js ''City?'',
             answer_1 = 9 # js ''Rex'', answer_2 = 10 # js ''Oslo''\<rparr>,
           reset_code = \<lparr>code = 11 # js ''code-1'',
             expires = 12 # toString10 (1000 + RESET_CODE_LIFETIME)\<rparr>\<rparr>)]\<rparr>"
  by (simp add: sample_challenged_store_def sample_teacher_store_def getCredentialResetChallenge_def
        getCredential_def key_id_seven begin_transaction_def no_faults_def new_Credential_def
        encryptPassword_def encryptSecretQuestions_def encryptResetCode_def sample_library_def
        sample_questions_def new_ResetCode_def generateResetCodeChallenge_def
        decryptSecretQuestions_def refreshCode_def Let_def commit_def queue_def table_put_def)

lemma js_eq_iff: "js a = js b \<longleftrightarrow> a = b"
proof -
  have "inj (\<lambda>c. of_nat (of_char c) :: 16 word)"
  proof (rule injI)
    fix c d :: char
    assume "(of_nat (of_char c) :: 16 word) = of_nat (of_char d)"
    then have "unat (of_nat (of_char c) :: 16 word) = unat (of_nat (of_char d) :: 16 word)"
      by simp
    moreover have "(of_char c :: nat) < 2 ^ 16" "(of_char d :: nat) < 2 ^ 16"
      by (rule less_trans [OF nat_of_char_less_256], simp)+
    ultimately have "(of_char c :: nat) = of_char d"
      by (simp add: unat_of_nat)
    then show "c = d" by simp
  qed
  then show ?thesis by (simp add: js_def inj_map_eq_map)
qed

lemma sample_library_simps:
  "encryptString sample_library k s = of_nat k # s"
  "decryptString sample_library (u # s) = s"
  "base64_to_utf8 sample_library s = s"
  by (simp_all add: sample_library_def)

lemma get_prop_simps:
  "get_prop [] key = JUndefined"
  "get_prop ((k, v) # kvs) key = (if key = k then v else get_prop kvs key)"
  by (simp_all add: get_prop_def)

lemma sample_body_props:
  "get_prop sample_body (js ''password'') = JString (js ''Manhattan01'')"
  "get_prop sample_body (js ''secret_questions'') =
       JObject [(js ''question_1'', JString (js ''Pet?'')),
                (js ''question_2'', JString (js ''City?'')),
                (js ''answer_1'', JString (js ''Rex'')),
                (js ''answer_2'', JString (js ''Oslo''))]"
  by (simp_all add: get_prop_simps sample_body_def js_eq_iff)

lemma first_reset_succeeds: "status (fst (resetUnknownPassword sample_library no_faults 2000 13 sample_body (js ''7'')
         (Some (js ''Basic 7:code-1'')) sample_challenged_store)) = 204"
  unfolding resetUnknownPassword_def
  by (simp add: sample_body_valid teacherExists_id_def teacherExists_def get_teacher_def key_id_seven
        getCredential_def no_faults_def begin_transaction_def challenged_store
        validateAuthHeader_parsed [OF sample_header_parses] resetCodeValid_def decryptResetCode_def
        encryptResetCode_def isUnexpired_def parseInt_toString10 RESET_CODE_LIFETIME_def
        secretQuestionsMatch_def decryptSecretQuestions_def encryptSecretQuestions_def
        deepCompare_def passwordsMatch_def decryptPassword_def encryptPassword_def
        updatePassword_def clearResetCode_def clearCode_def sample_library_simps sample_body_props
        get_prop_simps new_ServerResponse_def Let_def js_eq_iff)



lemma other_owner_header_parses:
  "basic_header sample_library (Some (js ''Basic 8:Relativity1'')) (js ''8'') (js ''Relativity1'')"
  by (simp add: basic_header_def sample_library_def js_def indexOf_def split_def)

theorem other_owner_is_forbidden_witness:
  "validateAuthHeader sample_library no_faults 2000 0 (begin_transaction sample_teacher_store)
       (Some (js ''Basic 8:Relativity1'')) (Some (js ''7'')) None False
     = (Some (new_ServerResponse 403
          (ErrorContent ''The teacher whose authorization credentials were provided does not own this resource.'')),
        None, 0, begin_transaction sample_teacher_store)"
proof -
  have "js ''8'' \<noteq> js ''7''" by (simp add: js_eq_iff)
  from other_owner_is_forbidden [OF other_owner_header_parses this] show ?thesis .
qed

lemma challenged_facts:
  "map_of (teachers sample_challenged_store) 7 \<noteq> None"
  "filter (\<lambda>c. fst (fst c) = 7) (credentials sample_challenged_store)
     = [((7, 1),
          \<lparr>password = 0 # js ''Relativity1'',
           secret_questions = \<lparr>question_1 = 7 # js ''Pet?'', question_2 = 8 # js ''City?'',
             answer_1 = 9 # js ''Rex'', answer_2 = 10 # js ''Oslo''\<rparr>,
           reset_code = \<lparr>code = 11 # js ''code-1'',
             expires = 12 # toString10 (1000 + RESET_CODE_LIFETIME)\<rparr>\<rparr>)]"
  by (simp_all add: challenged_store)

lemma second_challenge_ok:
  "status (fst (getCredentialResetChallenge sample_library no_faults 5000 (js ''code-2'') 19
                 (js ''7'') sample_challenged_store)) = 200"
  by (simp add: getCredentialResetChallenge_def getCredential_def key_id_seven begin_transaction_def
        no_faults_def challenged_store generateResetCodeChallenge_def Let_def
        encryptSecretQuestions_def encryptResetCode_def new_ServerResponse_def)

theorem reset_code_single_use_and_expiring_witness:
  "resetUnknownPassword sample_library no_faults 2001 25 sample_body (js ''7'')
       (Some (js ''Basic 7:code-1''))
       (fst (snd (resetUnknownPassword sample_library no_faults 2000 13 sample_body (js ''7'')
                    (Some (js ''Basic 7:code-1'')) sample_challenged_store)))
     = (new_ServerResponse 401
          (ErrorContent ''The reset code provided is incorrect and/or expired.''),
        fst (snd (resetUnknownPassword sample_library no_faults 2000 13 sample_body (js ''7'')
                    (Some (js ''Basic 7:code-1'')) sample_challenged_store)),
        27)
   \<and> resetUnknownPassword sample_library no_faults 1805000 25 sample_body (js ''7'')
       (Some (js ''Basic 7:code-1''))
       (fst (snd (getCredentialResetChallenge sample_library no_faults 5000 (js ''code-2'') 19
                    (js ''7'') sample_challenged_store)))
     = (new_ServerResponse 401
          (ErrorContent ''The reset code provided is incorrect and/or expired.''),
        fst (snd (getCredentialResetChallenge sample_library no_faults 5000 (js ''code-2'') 19
                    (js ''7'') sample_challenged_store)),
        27)"
proof -
  have ng: "\<not> get_throws no_faults (TeacherKey 7)"
    and nq: "runQuery_throws no_faults (CredentialsOfTeacher 7) = None"
    by (simp_all add: no_faults_def)
  note main = reset_code_single_use_and_expiring
    [OF sample_library_round_trip key_id_seven challenged_facts sample_header_parses sample_body_valid ng nq]
  have late: "5000 + RESET_CODE_LIFETIME \<le> 1805000" by (simp add: RESET_CODE_LIFETIME_def)
  from main [of no_faults 2000 13 sample_body 2001 25, THEN conjunct1, THEN mp, OF first_reset_succeeds]
       main [of _ _ _ _ 1805000 25 no_faults 5000 "js ''code-2''" 19, THEN conjunct2, THEN mp,
            OF conjI [OF second_challenge_ok late]]
  show ?thesis by simp
qed


section \<open>Passwords\<close>

lemma password_char_ok_single: "password_char_ok [u] \<longleftrightarrow> ascii_letter_or_digit u"
  by (auto simp: password_char_ok_def ascii_letter_or_digit_def js_def)

lemma password_char_ok_pair: "is_high_surrogate u \<Longrightarrow> \<not> password_char_ok [u, v]"
  by (auto simp: password_char_ok_def is_high_surrogate_def js_def word_le_nat_alt word_less_nat_alt)

lemma high_surrogate_not_ascii: "is_high_surrogate u \<Longrightarrow> \<not> ascii_letter_or_digit u"
  by (auto simp: ascii_letter_or_digit_def is_high_surrogate_def word_le_nat_alt)

lemma password_loop_code_points:
  "password_loop (code_points s) \<longleftrightarrow> (\<forall>u \<in> set s. ascii_letter_or_digit u)"
proof (induction s rule: code_points.induct)
  case 1
  show ?case by simp
next
  case (2 u)
  show ?case by (simp add: password_char_ok_single)
next
  case (3 u v us)
  show ?case
  proof (cases "is_high_surrogate u \<and> is_low_surrogate v")
    case True
    then show ?thesis
      by (simp add: password_char_ok_pair high_surrogate_not_ascii)
  next
    case False
    with 3 show ?thesis by (auto simp: password_char_ok_single)
  qed
qed

lemma VALIDATE_PASSWORD_iff:
  "VALIDATE_PASSWORD v \<longleftrightarrow>
     (\<exists>s. v = JString s \<and> 8 \<le> length s \<and> length s \<le> 16
          \<and> (\<forall>u \<in> set s. ascii_letter_or_digit u))"
  by (cases v) (auto simp: VALIDATE_PASSWORD_def password_loop_code_points)

lemma bad_password_fails:
  assumes "new_Property ''password'' VALIDATE_PASSWORD req \<in> set ps"
    and "req \<or> js ''password'' \<in> fst ` set d"
    and "\<not> VALIDATE_PASSWORD (get_prop d (js ''password''))"
  shows "\<not> validateProperties d ps"
proof -
  let ?p = "new_Property ''password'' VALIDATE_PASSWORD req"
  have n: "prop_name ?p = js ''password''" "prop_validator ?p = VALIDATE_PASSWORD"
    "prop_required ?p = req"
    by (simp_all add: new_Property_def)
  have "(prop_required ?p \<and> prop_name ?p \<notin> fst ` set d)
        \<or> (prop_name ?p \<in> fst ` set d \<and> \<not> prop_validator ?p (get_prop d (prop_name ?p)))"
    unfolding n using assms(2,3) by blast
  with assms(1) have "check_expected d ps 0 = None"
    unfolding check_expected_None by blast
  then show ?thesis by (simp add: validateProperties_def)
qed

text \<open>
  C10. The password validator accepts a value exactly when it is a string of 8 to 16 code
  units, each an ASCII letter or digit. A teacher creation or a password reset whose
  \<open>password\<close> is anything else (absent included), and a credential update that
  carries a \<open>password\<close> that is anything else, is answered 400 before the store is
  touched.
\<close>

theorem password_validator_and_rejection:
  "(VALIDATE_PASSWORD v \<longleftrightarrow>
      (\<exists>s. v = JString s \<and> 8 \<le> length s \<and> length s \<le> 16
           \<and> (\<forall>u \<in> set s. ascii_letter_or_digit u)))
   \<and> (\<not> VALIDATE_PASSWORD (get_prop entityData (js ''password'')) \<longrightarrow>
        postEntity_teacher lib flt chk k entityData db
          = (new_ServerResponse 400 (ErrorContent INVALID_PROPERTIES), db, k))
   \<and> (\<not> VALIDATE_PASSWORD (get_prop requestBody (js ''password'')) \<longrightarrow>
        resetUnknownPassword lib flt now k requestBody teacherId authReceived db
          = (new_ServerResponse 400 (ErrorContent INVALID_UPDATE), db, k))
   \<and> (js ''password'' \<in> fst ` set credentialPatches
        \<and> \<not> VALIDATE_PASSWORD (get_prop credentialPatches (js ''password'')) \<longrightarrow>
        updateCredentialPasswordKnown lib flt now k credentialPatches teacherId authReceived db
          = (new_ServerResponse 400 (ErrorContent INVALID_UPDATE), db, k))"
proof (intro conjI impI)
  show "VALIDATE_PASSWORD v \<longleftrightarrow>
      (\<exists>s. v = JString s \<and> 8 \<le> length s \<and> length s \<le> 16
           \<and> (\<forall>u \<in> set s. ascii_letter_or_digit u))"
    by (rule VALIDATE_PASSWORD_iff)
next
  assume "\<not> VALIDATE_PASSWORD (get_prop entityData (js ''password''))"
  then have "\<not> validateProperties entityData teachers_createProperties"
    by (intro bad_password_fails [where req = True]) (simp_all add: teachers_createProperties_def)
  then show "postEntity_teacher lib flt chk k entityData db
          = (new_ServerResponse 400 (ErrorContent INVALID_PROPERTIES), db, k)"
    by (simp add: postEntity_teacher_def)
next
  assume "\<not> VALIDATE_PASSWORD (get_prop requestBody (js ''password''))"
  then have "\<not> validateProperties requestBody credential_createProperties"
    by (intro bad_password_fails [where req = True]) (simp_all add: credential_createProperties_def)
  then show "resetUnknownPassword lib flt now k requestBody teacherId authReceived db
          = (new_ServerResponse 400 (ErrorContent INVALID_UPDATE), db, k)"
    by (simp add: resetUnknownPassword_def)
next
  assume "js ''password'' \<in> fst ` set credentialPatches
        \<and> \<not> VALIDATE_PASSWORD (get_prop credentialPatches (js ''password''))"
  then have "\<not> validateProperties credentialPatches credential_updateProperties"
    by (intro bad_password_fails [where req = False])
       (simp_all add: credential_updateProperties_def)
  then show "updateCredentialPasswordKnown lib flt now k credentialPatches teacherId authReceived db
          = (new_ServerResponse 400 (ErrorContent INVALID_UPDATE), db, k)"
    by (simp add: updateCredentialPasswordKnown_def)
qed

lemma short_password_rejected:
  "\<not> VALIDATE_PASSWORD (get_prop [(js ''password'', JString (js ''Ada1''))] (js ''password''))"
  by (simp add: get_prop_def VALIDATE_PASSWORD_def js_def)

theorem password_validator_and_rejection_witness:
  "VALIDATE_PASSWORD (JString (js ''Relativity1''))
   \<and> postEntity_teacher sample_library no_faults all_pass 0
         [(js ''password'', JString (js ''Ada1''))] sample_teacher_store
       = (new_ServerResponse 400 (ErrorContent INVALID_PROPERTIES), sample_teacher_store, 0)
   \<and> resetUnknownPassword sample_library no_faults 2000 0
         [(js ''password'', JString (js ''Ada1''))] (js ''7'') None sample_teacher_store
       = (new_ServerResponse 400 (ErrorContent INVALID_UPDATE), sample_teacher_store, 0)
   \<and> updateCredentialPasswordKnown sample_library no_faults 2000 0
         [(js ''password'', JString (js ''Ada1''))] (js ''7'') None sample_teacher_store
       = (new_ServerResponse 400 (ErrorContent INVALID_UPDATE), sample_teacher_store, 0)"
proof -
  note main = password_validator_and_rejection
    [of "JString (js ''Relativity1'')" "[(js ''password'', JString (js ''Ada1''))]"
        sample_library no_faults all_pass 0 sample_teacher_store
        "[(js ''password'', JString (js ''Ada1''))]" 2000 "js ''7''" None
        "[(js ''password'', JString (js ''Ada1''))]"]
  have good: "\<exists>s. JString (js ''Relativity1'') = JString s \<and> 8 \<le> length s \<and> length s \<le> 16
           \<and> (\<forall>u \<in> set s. ascii_letter_or_digit u)"
    by (simp add: js_def ascii_letter_or_digit_def)
  have present: "js ''password'' \<in> fst ` set [(js ''password'', JString (js ''Ada1''))]"
    by simp
  from main good short_password_rejected present show ?thesis by blast
qed

section \<open>Teacher and credential\<close>








section \<open>Listing with a refused cursor\<close>




lemma image_urls:
  "new_ParsedImageUrl (js ''https://storage.googleapis.com/kidizen-science-images/p.png'')
     = Some \<lparr>baseUrl = js ''https://storage.googleapis.com'',
             bucketName = js ''kidizen-science-images'', fileName = js ''p.png''\<rparr>"
  "new_ParsedImageUrl (js ''https://storage.googleapis.com/kidizen-science-images/o.png'')
     = Some \<lparr>baseUrl = js ''https://storage.googleapis.com'',
             bucketName = js ''kidizen-science-images'', fileName = js ''o.png''\<rparr>"
  by (simp_all add: new_ParsedImageUrl_def split_def js_def)

lemma default_photo_differs:
  "js ''https://storage.googleapis.com/kidizen-science-images/p.png'' \<noteq> DEFAULT_PROFILE_PHOTO"
  by (simp add: DEFAULT_PROFILE_PHOTO_def js_eq_iff)

section \<open>Cascade deletion\<close>

text \<open>
  C2 at two failing inputs: a project with one observation, deleted through
  \<open>deleteEntity\<close>. When deleting the observation's image throws, the cascade still
  answers \<open>true\<close>, the request is answered 204, both records are gone and the image
  stays in the bucket. When the query for the observations throws, the cascade answers
  \<open>false\<close>, the request is still answered 204 and committed: the project and its image
  are gone, the observation and its image stay. For the same failure inside a teacher's
  cascade, \<open>deleteProjectsOfTeacher\<close> answers \<open>true\<close> and queues the deletion of the
  project alone.
\<close>

theorem cascade_failures_not_reported:
  "deleteEntity_project image_delete_fails all_pass 1 project_with_observation
     = (new_ServerResponse 204 NoContent,
        \<lparr>store = \<lparr>teachers = [], projects = [], observations = [], credentials = []\<rparr>,
         bucket = {js ''o.png''}\<rparr>)
   \<and> fst (deleteObservationsOfProject image_delete_fails
            (begin_transaction (store project_with_observation)) 1
            (bucket project_with_observation)) = True
   \<and> deleteEntity_project observation_query_fails all_pass 1 project_with_observation
     = (new_ServerResponse 204 NoContent,
        \<lparr>store = \<lparr>teachers = [], projects = [],
                  observations = [((1, 1), sample_observation ''Goldfinch'' 1)],
                  credentials = []\<rparr>,
         bucket = {js ''o.png''}\<rparr>)
   \<and> fst (deleteObservationsOfProject observation_query_fails
            (begin_transaction (store project_with_observation)) 1
            (bucket project_with_observation)) = False
   \<and> deleteProjectsOfTeacher observation_query_fails
         (begin_transaction (store project_with_observation)) (js ''7'')
         (bucket project_with_observation)
     = (True,
        \<lparr>snapshot = store project_with_observation,
         mutations = [DeleteKeys [ProjectKey 1]],
         reads = [Queried (ProjectsOfTeacher (js ''7''))]\<rparr>,
        {js ''o.png''})"
proof (intro conjI)
  show "deleteEntity_project image_delete_fails all_pass 1 project_with_observation
     = (new_ServerResponse 204 NoContent,
        \<lparr>store = \<lparr>teachers = [], projects = [], observations = [], credentials = []\<rparr>,
         bucket = {js ''o.png''}\<rparr>)"
    by (simp add: deleteEntity_project_def deleteObservationsOfProject_def get_project_def
          begin_transaction_def project_with_observation_def sample_project_def
          sample_observation_def all_pass_def deleteImage_def image_urls default_photo_differs
          commit_def queue_def table_del_def new_ServerResponse_def no_faults_def
          image_delete_fails_def js_eq_iff)
  show "fst (deleteObservationsOfProject image_delete_fails
            (begin_transaction (store project_with_observation)) 1
            (bucket project_with_observation)) = True"
    by (simp add: deleteObservationsOfProject_def begin_transaction_def
          project_with_observation_def image_delete_fails_def no_faults_def
          split: prod.splits)
  show "deleteEntity_project observation_query_fails all_pass 1 project_with_observation
     = (new_ServerResponse 204 NoContent,
        \<lparr>store = \<lparr>teachers = [], projects = [],
                  observations = [((1, 1), sample_observation ''Goldfinch'' 1)],
                  credentials = []\<rparr>,
         bucket = {js ''o.png''}\<rparr>)"
    by (simp add: deleteEntity_project_def deleteObservationsOfProject_def get_project_def
          begin_transaction_def project_with_observation_def sample_project_def
          all_pass_def deleteImage_def image_urls default_photo_differs
          commit_def queue_def table_del_def new_ServerResponse_def no_faults_def
          observation_query_fails_def js_eq_iff)
  show "fst (deleteObservationsOfProject observation_query_fails
            (begin_transaction (store project_with_observation)) 1
            (bucket project_with_observation)) = False"
    by (simp add: deleteObservationsOfProject_def observation_query_fails_def no_faults_def)
  show "deleteProjectsOfTeacher observation_query_fails
         (begin_transaction (store project_with_observation)) (js ''7'')
         (bucket project_with_observation)
     = (True,
        \<lparr>snapshot = store project_with_observation,
         mutations = [DeleteKeys [ProjectKey 1]],
         reads = [Queried (ProjectsOfTeacher (js ''7''))]\<rparr>,
        {js ''o.png''})"
    by (simp add: deleteProjectsOfTeacher_def deleteObservationsOfProject_def
          begin_transaction_def project_with_observation_def sample_project_def
          deleteImage_def image_urls queue_def no_faults_def observation_query_fails_def
          js_eq_iff)
qed

end
